theory Spec2Isabelle
  imports Main "HOL-Library.Word"
begin

section \<open>The CBI build orchestrator of skaffold\<close>

text \<open>
  A shallow embedding of the CBI builder: the job template and its fulfilment
  (package v1alpha2), the temporary nginx staging resource and the build driver
  (package cbi), and the per-artifact loop of the builder (package build).

  Calls that leave the program (the Kubernetes API server, kubectl, the registry, the
  clock, the random source, the YAML library) are answered by an environment record:
  each field is the answer the outside world gives to one call.  Every function returns
  its Go return values together with the list of events it caused, in program order.
\<close>

subsection \<open>The BuildJob object (cbiv1alpha1.BuildJob)\<close>

text \<open>
  The structs of the CBI API library, with the fields the orchestrator reads or writes
  named as in Go.  The fields of a struct that the orchestrator never mentions are kept
  together in its \<open>Rest\<close> component, as pairs of field path and value.
\<close>

type_synonym rest_fields = "(string \<times> string) list"

record LocalObjectReference =
  ref_Name :: string

record Registry =
  Target :: string
  Push :: bool
  SecretRef :: LocalObjectReference

record Language =
  lang_Kind :: string
  lang_Rest :: rest_fields

record HTTP =
  URL :: string

record Context =
  ctx_Kind :: string
  ctx_HTTP :: HTTP
  ctx_Rest :: rest_fields

record BuildJobSpec =
  spec_Registry :: Registry
  spec_Language :: Language
  spec_Context :: Context
  PluginSelector :: string

record BuildJobStatus =
  Job :: string

record ObjectMeta =
  Name :: string
  meta_Rest :: rest_fields

record BuildJob =
  Kind :: string
  APIVersion :: string
  ObjectMeta :: ObjectMeta
  Spec :: BuildJobSpec
  Status :: BuildJobStatus

text \<open>The zero value of the struct: what an empty template decodes to.\<close>

definition empty_BuildJob :: BuildJob where
  "empty_BuildJob =
     \<lparr>Kind = '''', APIVersion = '''',
      ObjectMeta = \<lparr>Name = '''', meta_Rest = []\<rparr>,
      Spec = \<lparr>spec_Registry = \<lparr>Target = '''', Push = False, SecretRef = \<lparr>ref_Name = ''''\<rparr>\<rparr>,
              spec_Language = \<lparr>lang_Kind = '''', lang_Rest = []\<rparr>,
              spec_Context = \<lparr>ctx_Kind = '''', ctx_HTTP = \<lparr>URL = ''''\<rparr>, ctx_Rest = []\<rparr>,
              PluginSelector = ''''\<rparr>,
      Status = \<lparr>Job = ''''\<rparr>\<rparr>"

text \<open>Constants of the CBI API library, as the comments of the source give them.\<close>

definition SchemeGroupVersion :: string where
  "SchemeGroupVersion = ''cbi.containerbuilding.github.io/v1alpha1''"

definition LanguageKindDockerfile :: string where
  "LanguageKindDockerfile = ''Dockerfile''"

definition ContextKindHTTP :: string where
  "ContextKindHTTP = ''HTTP''"

subsection \<open>Errors\<close>

text \<open>The status of a batch Job (batchv1.JobStatus): the pointer \<open>CompletionTime\<close> is
  nil or a time, \<open>Failed\<close> is an int32.\<close>

record JobStatus =
  CompletionTime :: "int option"
  Failed :: "32 word"
  js_Rest :: rest_fields

text \<open>
  The error values of the program.  \<open>ErrExternal\<close> is an error that an outside call
  returned; the others are built by the program: by errors.Errorf and fmt.Errorf with the
  values they format, by errors.Wrap with the message and the wrapped error, and
  wait.ErrWaitTimeout.
\<close>

datatype error =
    ErrExternal string
  | ErrUnsupportedVersion string
  | ErrNonStringAPIVersion
  | ErrExpectedVersion string string
  | ErrNotFound string
  | ErrJobFailed JobStatus
  | ErrWaitTimeout
  | ErrOutput string error
  | ErrWrap string error

subsection \<open>Formatting\<close>

text \<open>The verb \<open>%d\<close> of fmt.Sprintf on an integer: decimal digits, a minus sign first
  when the number is negative.\<close>

definition digit_char :: "nat \<Rightarrow> char" where
  "digit_char d = char_of (48 + d)"

function decimal :: "nat \<Rightarrow> string" where
  "decimal n = (if n < 10 then [digit_char n] else decimal (n div 10) @ [digit_char (n mod 10)])"
  by pat_completeness auto
termination
  by (relation "measure id") auto

definition fmt_d :: "int \<Rightarrow> string" where
  "fmt_d i = (if i < 0 then CHR ''-'' # decimal (nat (- i)) else decimal (nat i))"

text \<open>
  A Go slice expression \<open>s[0:n]\<close> on a string: the first \<open>n\<close> bytes, and a run-time
  panic when the string is shorter than \<open>n\<close>.  \<open>None\<close> is the panic.
\<close>

definition slice_to :: "nat \<Rightarrow> string \<Rightarrow> string option" where
  "slice_to n s = (if length s < n then None else Some (take n s))"

subsection \<open>The job template and Fulfill (package v1alpha2)\<close>

record cbiBuildJobTemplateV1Alpha1 =
  bj :: BuildJob

definition template_APIVersion :: "cbiBuildJobTemplateV1Alpha1 \<Rightarrow> string" where
  "template_APIVersion t = SchemeGroupVersion"

definition template_BuildJob :: "cbiBuildJobTemplateV1Alpha1 \<Rightarrow> BuildJob" where
  "template_BuildJob t = bj t"

text \<open>
  Fulfill reads the clock (\<open>time.Now().UnixNano()\<close>, an int64) and calls
  \<open>util.RandomID()\<close> only when the name of the template is empty; \<open>now\<close> and \<open>rid\<close>
  are the two answers.  The result is \<open>None\<close> when the slice \<open>RandomID()[0:1]\<close> panics,
  and otherwise the returned error (always nil) with the template as Fulfill leaves it.
\<close>

definition generated_name :: "64 word \<Rightarrow> string \<Rightarrow> string option" where
  "generated_name now rid =
     (case slice_to 1 rid of
        None \<Rightarrow> None
      | Some r \<Rightarrow> Some (''skaffold-'' @ fmt_d (sint now) @ ''-'' @ r))"

definition fulfill_if_empty :: "64 word \<Rightarrow> string \<Rightarrow> BuildJob \<Rightarrow> BuildJob option" where
  "fulfill_if_empty now rid b0 =
     (let b1 = (if APIVersion b0 = '''' then b0\<lparr>APIVersion := SchemeGroupVersion\<rparr> else b0);
          b2 = (if Kind b1 = '''' then b1\<lparr>Kind := ''BuildJob''\<rparr> else b1)
      in case (if Name (ObjectMeta b2) = ''''
               then map_option (\<lambda>n. b2\<lparr>ObjectMeta := (ObjectMeta b2)\<lparr>Name := n\<rparr>\<rparr>)
                      (generated_name now rid)
               else Some b2) of
           None \<Rightarrow> None
         | Some b3 \<Rightarrow>
             Some (if lang_Kind (spec_Language (Spec b3)) = ''''
                   then b3\<lparr>Spec := (Spec b3)\<lparr>spec_Language :=
                          (spec_Language (Spec b3))\<lparr>lang_Kind := LanguageKindDockerfile\<rparr>\<rparr>\<rparr>
                   else b3))"

definition override :: "string \<Rightarrow> string \<Rightarrow> BuildJob \<Rightarrow> BuildJob" where
  "override imageName httpContextURL b4 =
     (let b5 = b4\<lparr>Spec := (Spec b4)\<lparr>spec_Registry := (spec_Registry (Spec b4))\<lparr>Target := imageName\<rparr>\<rparr>\<rparr>;
          b6 = b5\<lparr>Spec := (Spec b5)\<lparr>spec_Registry := (spec_Registry (Spec b5))\<lparr>Push := True\<rparr>\<rparr>\<rparr>;
          b7 = b6\<lparr>Spec := (Spec b6)\<lparr>spec_Context := (spec_Context (Spec b6))\<lparr>ctx_Kind := ContextKindHTTP\<rparr>\<rparr>\<rparr>;
          b8 = b7\<lparr>Spec := (Spec b7)\<lparr>spec_Context := (spec_Context (Spec b7))\<lparr>ctx_HTTP := \<lparr>URL = ''''\<rparr>\<rparr>\<rparr>\<rparr>
      in b8\<lparr>Spec := (Spec b8)\<lparr>spec_Context := (spec_Context (Spec b8))\<lparr>ctx_HTTP :=
              (ctx_HTTP (spec_Context (Spec b8)))\<lparr>URL := httpContextURL\<rparr>\<rparr>\<rparr>\<rparr>)"

definition Fulfill ::
  "64 word \<Rightarrow> string \<Rightarrow> string \<Rightarrow> string \<Rightarrow> cbiBuildJobTemplateV1Alpha1
     \<Rightarrow> (error option \<times> cbiBuildJobTemplateV1Alpha1) option" where
  "Fulfill now rid imageName httpContextURL t =
     (case fulfill_if_empty now rid (bj t) of
        None \<Rightarrow> None
      | Some b4 \<Rightarrow> Some (None, t\<lparr>bj := override imageName httpContextURL b4\<rparr>))"

subsection \<open>GetBuildJobTemplate (package v1alpha2)\<close>

text \<open>
  A decoded YAML value, as the YAML library hands it over in an \<open>interface{}\<close>, and
  yaml.MapSlice, the ordered list of the items of a mapping.  Keys and values are both of
  type \<open>interface{}\<close>: a key need not be a string.
\<close>

datatype yaml =
    YString string
  | YInt int
  | YBool bool
  | YNull
  | YSeq "yaml list"
  | YMap "(yaml \<times> yaml) list"

type_synonym MapSlice = "(yaml \<times> yaml) list"

record CBIBuild =
  BuildJobTemplate :: MapSlice

text \<open>
  The two calls into the YAML library, yaml.Marshal on the map and yaml.UnmarshalStrict
  into a BuildJob, are answered by the environment.
\<close>

record yaml_env =
  yaml_Marshal :: "MapSlice \<Rightarrow> string \<times> error option"
  yaml_UnmarshalStrict :: "string \<Rightarrow> BuildJob \<times> error option"

text \<open>
  The loop over the items of the template.  It is left in one of three ways: by a return
  with an error, by the jump to the label \<open>v1alpha1\<close>, or by running to its end, after
  which control reaches the same label.
\<close>

datatype scan_exit = ReturnError error | GotoV1alpha1 | LoopEnd

fun scan_apiVersion :: "MapSlice \<Rightarrow> scan_exit" where
  "scan_apiVersion [] = LoopEnd"
| "scan_apiVersion ((YString k, v) # items) =
     (if k \<noteq> ''apiVersion'' then scan_apiVersion items
      else case v of
             YString s \<Rightarrow>
               (if s = SchemeGroupVersion then GotoV1alpha1
                else ReturnError (ErrExpectedVersion SchemeGroupVersion s))
           | _ \<Rightarrow> ReturnError ErrNonStringAPIVersion)"
| "scan_apiVersion ((_, v) # items) = scan_apiVersion items"

definition GetBuildJobTemplate ::
  "yaml_env \<Rightarrow> CBIBuild \<Rightarrow> cbiBuildJobTemplateV1Alpha1 option \<times> error option" where
  "GetBuildJobTemplate env p =
     (case yaml_Marshal env (BuildJobTemplate p) of
        (b, Some err) \<Rightarrow> (None, Some err)
      | (b, None) \<Rightarrow>
          (case scan_apiVersion (BuildJobTemplate p) of
             ReturnError err \<Rightarrow> (None, Some err)
           | _ \<Rightarrow>
               (case yaml_UnmarshalStrict env b of
                  (j, Some err) \<Rightarrow> (None, Some err)
                | (j, None) \<Rightarrow> (Some \<lparr>bj = j\<rparr>, None))))"

subsection \<open>Events and the environment of one build\<close>

datatype event =
    EvLog string "string list"
  | EvNewTempNginx string
  | EvTempNginxDelete
  | EvPodCreate string
  | EvServiceCreate string
  | EvWaitForPodReady string
  | EvServiceDelete string
  | EvPodDelete string
  | EvTempFile string
  | EvRemove string
  | EvCreateTarGz string
  | EvCmdRun "string list"
  | EvCmdStart "string list"
  | EvProcessKill
  | EvSleep int
  | EvBuildJobCreate string
  | EvBuildJobGet string
  | EvBuildJobDelete string
  | EvJobGet string
  | EvRunCBIBuild string
  | EvRemoteDigest string
  | EvGenerateTag string
  | EvAddTag string string

record Container =
  c_Name :: string
  c_Image :: string
  c_ImagePullPolicy :: string
  c_Ports :: "32 word list"

record Pod =
  pod_Name :: string
  pod_Labels :: "(string \<times> string) list"
  pod_Containers :: "Container list"

record Service =
  svc_Name :: string
  svc_Ports :: "32 word list"
  svc_Selector :: "(string \<times> string) list"

record K8sJob =
  job_Status :: JobStatus

text \<open>
  The answers of the outside world during one call of RunCBIBuild.  A call that returns
  an object and an error is answered by the pair.  \<open>buildjobs_Get k\<close> and \<open>jobs_Get k\<close>
  answer the \<open>k\<close>-th Get of a poll, counted from 0.  \<open>ready_ticks\<close> and
  \<open>completion_ticks\<close> are the numbers of ticks that the poller of each wait hands to the
  waiting loop before its timer fires.  \<open>create_error_first\<close> says which error
  errgroup's Wait reports when both goroutines fail.
\<close>

record run_env =
  kube_NewForConfig :: "error option"
  nginx_now :: "64 word"
  nginx_RandomID :: string
  ioutil_TempFile :: "string \<times> error option"
  pods_Create :: "Pod \<Rightarrow> Pod \<times> error option"
  services_Create :: "Service \<Rightarrow> Service \<times> error option"
  WaitForPodReady :: "string \<Rightarrow> error option"
  CreateDockerTarGzContext :: "string \<Rightarrow> string \<Rightarrow> error option"
  CreateTarGz :: "string \<Rightarrow> error option"
  create_error_first :: bool
  ctxTarDigest :: "string \<times> string"
  cmd_Run :: "string list \<Rightarrow> string \<times> error option"
  tag_RandomID :: string
  fulfill_now :: "64 word"
  fulfill_RandomID :: string
  cbi_NewForConfig :: "error option"
  buildjobs_Create :: "BuildJob \<Rightarrow> BuildJob \<times> error option"
  buildjobs_Get :: "nat \<Rightarrow> string \<Rightarrow> BuildJob \<times> error option"
  ready_ticks :: nat
  cmd_Start :: "string list \<Rightarrow> error option"
  jobs_Get :: "nat \<Rightarrow> string \<Rightarrow> K8sJob \<times> error option"
  completion_ticks :: nat
  services_Delete :: "string \<Rightarrow> error option"
  pods_Delete :: "string \<Rightarrow> error option"

subsection \<open>The temporary nginx server (package cbi)\<close>

text \<open>
  The handle holds the pod and the service objects.  Its field \<open>ns\<close> is never
  assigned by NewTempNginx, so it keeps the zero value, the empty string; the two clients
  are bound to the namespace given.
\<close>

record TempNginx =
  client_ns :: string
  ns :: string
  pod :: Pod
  service :: Service

text \<open>\<open>None\<close> is the panic of the slice \<open>RandomID()[0:2]\<close>.\<close>

definition NewTempNginx :: "64 word \<Rightarrow> string \<Rightarrow> string \<Rightarrow> TempNginx option" where
  "NewTempNginx now rid namespace =
     (case slice_to 2 rid of
        None \<Rightarrow> None
      | Some r \<Rightarrow>
          (let name = ''tempnginx-'' @ fmt_d (sint now) @ ''-'' @ r;
               port = (80 :: 32 word);
               selectorKey = ''nginx''
           in Some \<lparr>client_ns = namespace, ns = '''',
                 pod = \<lparr>pod_Name = name, pod_Labels = [(selectorKey, name)],
                         pod_Containers = [\<lparr>c_Name = ''nginx'', c_Image = ''nginx:alpine'',
                                             c_ImagePullPolicy = ''IfNotPresent'',
                                             c_Ports = [port]\<rparr>]\<rparr>,
                 service = \<lparr>svc_Name = name, svc_Ports = [port],
                             svc_Selector = [(selectorKey, name)]\<rparr>\<rparr>))"

definition TempNginx_Create ::
  "run_env \<Rightarrow> TempNginx \<Rightarrow> error option \<times> TempNginx \<times> event list" where
  "TempNginx_Create env x =
     (case pods_Create env (pod x) of
        (p, Some err) \<Rightarrow> (Some err, x\<lparr>pod := p\<rparr>, [EvPodCreate (pod_Name (pod x))])
      | (p, None) \<Rightarrow>
          (case services_Create env (service x) of
             (sv, Some err) \<Rightarrow>
               (Some err, x\<lparr>pod := p, service := sv\<rparr>,
                [EvPodCreate (pod_Name (pod x)), EvServiceCreate (svc_Name (service x))])
           | (sv, None) \<Rightarrow>
               (WaitForPodReady env (pod_Name p), x\<lparr>pod := p, service := sv\<rparr>,
                [EvPodCreate (pod_Name (pod x)), EvServiceCreate (svc_Name (service x)),
                 EvWaitForPodReady (pod_Name p)])))"

definition TempNginx_Delete :: "run_env \<Rightarrow> TempNginx \<Rightarrow> error option \<times> event list" where
  "TempNginx_Delete env x =
     (case services_Delete env (svc_Name (service x)) of
        Some err \<Rightarrow> (Some err, [EvTempNginxDelete, EvServiceDelete (svc_Name (service x))])
      | None \<Rightarrow>
          (case pods_Delete env (pod_Name (pod x)) of
             Some err \<Rightarrow>
               (Some err, [EvTempNginxDelete, EvServiceDelete (svc_Name (service x)),
                           EvPodDelete (pod_Name (pod x))])
           | None \<Rightarrow>
               (None, [EvTempNginxDelete, EvServiceDelete (svc_Name (service x)),
                       EvPodDelete (pod_Name (pod x))])))"

fun run_cmds :: "run_env \<Rightarrow> string list list \<Rightarrow> error option \<times> event list" where
  "run_cmds env [] = (None, [])"
| "run_cmds env (cmd # cmds) =
     (case cmd_Run env cmd of
        (b, Some err) \<Rightarrow> (Some (ErrOutput b err), [EvCmdRun cmd])
      | (b, None) \<Rightarrow> (case run_cmds env cmds of (r, evs) \<Rightarrow> (r, EvCmdRun cmd # evs)))"

definition TempNginx_Copy ::
  "run_env \<Rightarrow> TempNginx \<Rightarrow> string \<Rightarrow> string \<Rightarrow> error option \<times> event list" where
  "TempNginx_Copy env x dstRemote srcLocal =
     run_cmds env
       [[''kubectl'', ''cp'', srcLocal, ns x @ ''/'' @ pod_Name (pod x) @ '':'' @ dstRemote],
        [''kubectl'', ''--namespace'', ns x, ''exec'', pod_Name (pod x), ''chmod'', ''0644'',
         dstRemote]]"

subsection \<open>Polling\<close>

text \<open>
  Modelled from the spec: wait.PollImmediate belongs to the Kubernetes client library and
  is not among the sources.  The spec describes both polls as: fetch at a fixed interval
  up to a ceiling; an error of the fetch ends the wait with that error; the ceiling
  exceeded is a timeout error.  PollImmediate checks the condition once before it waits,
  then once for each tick of the poller, and once more when the poller closes its channel
  at the timeout.  An error of the condition is returned whatever its boolean says.  A
  ticker with the given interval fires at most \<open>timeout div interval\<close> times before the
  timer, and a tick is dropped while the condition is still running, so the number of
  ticks is the number the environment reports, cut at that bound.  Both polls of the
  program pass the interval 500 ms; an interval that is not positive, for which a Go
  ticker panics, does not occur.
\<close>

type_synonym Duration = int

definition Millisecond :: Duration where
  "Millisecond = 1000000"

definition Second :: Duration where
  "Second = 1000 * Millisecond"

definition Minute :: Duration where
  "Minute = 60 * Second"

type_synonym 's ConditionFunc = "'s \<Rightarrow> (bool \<times> error option) \<times> 's"

fun WaitFor :: "nat \<Rightarrow> 's ConditionFunc \<Rightarrow> 's \<Rightarrow> error option \<times> 's" where
  "WaitFor 0 fn s =
     (case fn s of
        ((ok, Some err), s') \<Rightarrow> (Some err, s')
      | ((True, None), s') \<Rightarrow> (None, s')
      | ((False, None), s') \<Rightarrow> (Some ErrWaitTimeout, s'))"
| "WaitFor (Suc n) fn s =
     (case fn s of
        ((ok, Some err), s') \<Rightarrow> (Some err, s')
      | ((True, None), s') \<Rightarrow> (None, s')
      | ((False, None), s') \<Rightarrow> WaitFor n fn s')"

definition poller_ticks :: "Duration \<Rightarrow> Duration \<Rightarrow> nat \<Rightarrow> nat" where
  "poller_ticks interval timeout delivered = min delivered (nat (timeout div interval))"

definition PollImmediate ::
  "Duration \<Rightarrow> Duration \<Rightarrow> nat \<Rightarrow> 's ConditionFunc \<Rightarrow> 's \<Rightarrow> error option \<times> 's" where
  "PollImmediate interval timeout delivered condition s =
     (case condition s of
        ((done, Some err), s') \<Rightarrow> (Some err, s')
      | ((True, None), s') \<Rightarrow> (None, s')
      | ((False, None), s') \<Rightarrow> WaitFor (poller_ticks interval timeout delivered) condition s')"

subsection \<open>runCBIBuildV1Alpha1 and its waits (package cbi)\<close>

text \<open>
  The condition of the readiness poll is a closure over the variable \<open>bj\<close>, which it
  overwrites with each answer.  Its state is that variable and the names it has asked
  for, oldest first.
\<close>

definition ready_condition :: "run_env \<Rightarrow> (BuildJob \<times> string list) ConditionFunc" where
  "ready_condition env = (\<lambda>(b, asked).
     (case buildjobs_Get env (length asked) (Name (ObjectMeta b)) of
        (b', Some err) \<Rightarrow>
          ((False, Some (ErrNotFound (Name (ObjectMeta b')))), (b', asked @ [Name (ObjectMeta b)]))
      | (b', None) \<Rightarrow>
          (if Job (Status b') = ''''
           then ((False, None), (b', asked @ [Name (ObjectMeta b)]))
           else ((True, None), (b', asked @ [Name (ObjectMeta b)])))))"

definition waitBuildJobReady ::
  "run_env \<Rightarrow> BuildJob \<Rightarrow> error option \<times> BuildJob \<times> string list" where
  "waitBuildJobReady env b =
     PollImmediate (Millisecond * 500) (Minute * 3) (ready_ticks env) (ready_condition env) (b, [])"

definition waitJobPodReady :: "string \<Rightarrow> error option \<times> event list" where
  "waitJobPodReady jobName = (None, [EvSleep (10 * Second)])"

text \<open>The condition of the completion poll; its state is the number of Gets made.\<close>

definition completion_condition :: "run_env \<Rightarrow> string \<Rightarrow> nat ConditionFunc" where
  "completion_condition env jobName = (\<lambda>k.
     (case jobs_Get env k jobName of
        (job, Some err) \<Rightarrow> ((False, Some (ErrNotFound jobName)), Suc k)
      | (job, None) \<Rightarrow>
          (if CompletionTime (job_Status job) \<noteq> None
           then (if Failed (job_Status job) = 0
                 then ((True, None), Suc k)
                 else ((True, Some (ErrJobFailed (job_Status job))), Suc k))
           else ((False, None), Suc k))))"

definition waitJobCompletion :: "run_env \<Rightarrow> string \<Rightarrow> error option \<times> nat" where
  "waitJobCompletion env jobName =
     PollImmediate (Millisecond * 500) (Minute * 60) (completion_ticks env)
       (completion_condition env jobName) 0"

definition cmdFollowJobLog :: "string \<Rightarrow> string \<Rightarrow> string list" where
  "cmdFollowJobLog kubeNS jobName =
     [''kubectl'', ''--namespace'', kubeNS, ''logs'', ''--follow'', ''job/'' @ jobName]"

text \<open>
  The part of runCBIBuildV1Alpha1 after \<open>defer cbiC.BuildJobs(kubeNS).Delete(bj.Name, nil)\<close>.
  The log follower that was started is killed by a deferred call when the function
  returns.
\<close>

definition runCBIBuildV1Alpha1_created ::
  "run_env \<Rightarrow> string \<Rightarrow> BuildJob \<Rightarrow> error option \<times> event list" where
  "runCBIBuildV1Alpha1_created env kubeNS b1 =
     (case waitBuildJobReady env b1 of
        (Some wErr, b2, asked) \<Rightarrow>
          (Some wErr,
           EvLog ''waiting buildjob %s to be ready'' [Name (ObjectMeta b1)]
             # map EvBuildJobGet asked)
      | (None, b2, asked) \<Rightarrow>
          (case waitJobPodReady (Job (Status b2)) of
             (Some err, evs) \<Rightarrow>
               (Some err,
                EvLog ''waiting buildjob %s to be ready'' [Name (ObjectMeta b1)]
                  # map EvBuildJobGet asked
                  @ [EvLog ''CBI BuildJob: %q, batchv1 Job: %q''
                       [Name (ObjectMeta b2), Job (Status b2)]]
                  @ evs)
           | (None, evs) \<Rightarrow>
               (case cmd_Start env (cmdFollowJobLog kubeNS (Job (Status b2))) of
                  Some err \<Rightarrow>
                    (Some err,
                     EvLog ''waiting buildjob %s to be ready'' [Name (ObjectMeta b1)]
                       # map EvBuildJobGet asked
                       @ [EvLog ''CBI BuildJob: %q, batchv1 Job: %q''
                            [Name (ObjectMeta b2), Job (Status b2)]]
                       @ evs
                       @ [EvCmdStart (cmdFollowJobLog kubeNS (Job (Status b2)))])
                | None \<Rightarrow>
                    (case waitJobCompletion env (Job (Status b2)) of
                       (err, k) \<Rightarrow>
                         (err,
                          EvLog ''waiting buildjob %s to be ready'' [Name (ObjectMeta b1)]
                            # map EvBuildJobGet asked
                            @ [EvLog ''CBI BuildJob: %q, batchv1 Job: %q''
                                 [Name (ObjectMeta b2), Job (Status b2)]]
                            @ evs
                            @ [EvCmdStart (cmdFollowJobLog kubeNS (Job (Status b2)))]
                            @ replicate k (EvJobGet (Job (Status b2)))
                            @ [EvProcessKill])))))"

definition runCBIBuildV1Alpha1 ::
  "run_env \<Rightarrow> string \<Rightarrow> BuildJob \<Rightarrow> error option \<times> event list" where
  "runCBIBuildV1Alpha1 env kubeNS b =
     (case buildjobs_Create env b of
        (b1, Some err) \<Rightarrow>
          (Some err,
           [EvLog ''creating buildjob %s'' [Name (ObjectMeta b)],
            EvBuildJobCreate (Name (ObjectMeta b))])
      | (b1, None) \<Rightarrow>
          (case runCBIBuildV1Alpha1_created env kubeNS b1 of
             (r, evs) \<Rightarrow>
               (r,
                [EvLog ''creating buildjob %s'' [Name (ObjectMeta b)],
                 EvBuildJobCreate (Name (ObjectMeta b))]
                  @ evs
                  @ [EvBuildJobDelete (Name (ObjectMeta b1))])))"

subsection \<open>RunCBIBuild (package cbi)\<close>

record DockerArtifact =
  DockerfilePath :: string
  BuildArgs :: "(string \<times> string option) list"

record BazelArtifact =
  BuildTarget :: string

record Artifact =
  ImageName :: string
  Workspace :: string
  DockerArtifact :: "DockerArtifact option"
  BazelArtifact :: "BazelArtifact option"
  S2IArtifact :: "BazelArtifact option"

text \<open>filepath.Base: the last element of a path, trailing slashes removed first.\<close>

definition filepath_Base :: "string \<Rightarrow> string" where
  "filepath_Base p =
     (if p = [] then ''.''
      else let q = dropWhile (\<lambda>c. c = CHR ''/'') (rev p)
           in if q = [] then ''/'' else rev (takeWhile (\<lambda>c. c \<noteq> CHR ''/'') q))"

text \<open>The goroutine that writes the archive of the build context.\<close>

definition package_context :: "run_env \<Rightarrow> Artifact \<Rightarrow> error option \<times> event list" where
  "package_context env artifact =
     (case DockerArtifact artifact of
        Some d \<Rightarrow>
          (map_option (ErrWrap ''creating tar gz'')
             (CreateDockerTarGzContext env (DockerfilePath d) (Workspace artifact)),
           [EvCreateTarGz (Workspace artifact)])
      | None \<Rightarrow>
          (map_option (ErrWrap ''creating tar gz'') (CreateTarGz env (Workspace artifact)),
           [EvCreateTarGz (Workspace artifact)]))"

text \<open>errgroup's Wait: nil when both goroutines return nil, otherwise the error of the
  goroutine that failed first.\<close>

definition eg_Wait :: "bool \<Rightarrow> error option \<Rightarrow> error option \<Rightarrow> error option" where
  "eg_Wait first e1 e2 =
     (case (e1, e2) of
        (None, None) \<Rightarrow> None
      | (Some a, None) \<Rightarrow> Some a
      | (None, Some b) \<Rightarrow> Some b
      | (Some a, Some b) \<Rightarrow> Some (if first then a else b))"

text \<open>
  The result of a call of RunCBIBuild: \<open>None\<close> when it panics, otherwise its two return
  values and the template, which Fulfill changes through its pointer.
\<close>

type_synonym run_result = "((string \<times> error option) \<times> cbiBuildJobTemplateV1Alpha1) option"

text \<open>From the upload to the end of the function.  The type assertion on
  \<open>template.BuildJob()\<close> cannot fail: the only template type returns a
  \<open>*cbiv1alpha1.BuildJob\<close>.\<close>

definition RunCBIBuild_upload ::
  "run_env \<Rightarrow> string \<Rightarrow> Artifact \<Rightarrow> cbiBuildJobTemplateV1Alpha1 \<Rightarrow> TempNginx \<Rightarrow> string
     \<Rightarrow> run_result \<times> event list" where
  "RunCBIBuild_upload env kubeNS artifact t x ctxTarName =
     (let ctxTarDest = ''/usr/share/nginx/html/'' @ fst (ctxTarDigest env) @ ''-''
                         @ snd (ctxTarDigest env) @ ''.tar.gz'';
          ctxTarURL = ''http://'' @ svc_Name (service x) @ ''/'' @ filepath_Base ctxTarDest;
          uploading = EvLog ''Uploading %s to %s/%s:%s. (%s)''
                        [ctxTarName, kubeNS, pod_Name (pod x), ctxTarDest, ctxTarURL];
          imageDst = ImageName artifact @ '':'' @ tag_RandomID env
      in case TempNginx_Copy env x ctxTarDest ctxTarName of
           (Some err, evs) \<Rightarrow> (Some (('''', Some err), t), uploading # evs)
         | (None, evs) \<Rightarrow>
             (case Fulfill (fulfill_now env) (fulfill_RandomID env) imageDst ctxTarURL t of
                None \<Rightarrow> (None, uploading # evs @ [EvLog ''Upload done'' []])
              | Some (Some err, t') \<Rightarrow>
                  (Some (('''', Some err), t'), uploading # evs @ [EvLog ''Upload done'' []])
              | Some (None, t') \<Rightarrow>
                  (case cbi_NewForConfig env of
                     Some err \<Rightarrow>
                       (Some (('''', Some err), t'),
                        uploading # evs
                          @ [EvLog ''Upload done'' [],
                             EvLog ''CBI BuildJob: %+v'' [Name (ObjectMeta (template_BuildJob t'))]])
                   | None \<Rightarrow>
                       (case runCBIBuildV1Alpha1 env kubeNS (template_BuildJob t') of
                          (Some err, evs') \<Rightarrow>
                            (Some (('''', Some err), t'),
                             uploading # evs
                               @ [EvLog ''Upload done'' [],
                                  EvLog ''CBI BuildJob: %+v''
                                    [Name (ObjectMeta (template_BuildJob t'))]]
                               @ evs')
                        | (None, evs') \<Rightarrow>
                            (Some ((imageDst, None), t'),
                             uploading # evs
                               @ [EvLog ''Upload done'' [],
                                  EvLog ''CBI BuildJob: %+v''
                                    [Name (ObjectMeta (template_BuildJob t'))]]
                               @ evs')))))"

text \<open>
  From \<open>ioutil.TempFile\<close> on, that is the part that runs under
  \<open>defer nginx.Delete(ctx)\<close>.  The two goroutines of the errgroup run to their ends; the
  events of the creation of the server are listed before those of the packaging.  The
  handle is returned as Create left it.
\<close>

definition RunCBIBuild_staged ::
  "run_env \<Rightarrow> string \<Rightarrow> Artifact \<Rightarrow> cbiBuildJobTemplateV1Alpha1 \<Rightarrow> TempNginx
     \<Rightarrow> run_result \<times> TempNginx \<times> event list" where
  "RunCBIBuild_staged env kubeNS artifact t x =
     (case ioutil_TempFile env of
        (ctxTarName, Some err) \<Rightarrow>
          (Some (('''', Some err), t), x, [EvTempFile ''skaffold-cbi-temp''])
      | (ctxTarName, None) \<Rightarrow>
          (case TempNginx_Create env x of
             (e1, x', evs1) \<Rightarrow>
               (case package_context env artifact of
                  (e2, evs2) \<Rightarrow>
                    (case eg_Wait (create_error_first env) e1 e2 of
                       Some err \<Rightarrow>
                         (Some (('''', Some err), t), x',
                          EvTempFile ''skaffold-cbi-temp''
                            # EvLog ''Creating a temporary nginx server'' []
                            # evs1 @ evs2 @ [EvRemove ctxTarName])
                     | None \<Rightarrow>
                         (case RunCBIBuild_upload env kubeNS artifact t x' ctxTarName of
                            (r, evs3) \<Rightarrow>
                              (r, x',
                               EvTempFile ''skaffold-cbi-temp''
                                 # EvLog ''Creating a temporary nginx server'' []
                                 # evs1 @ evs2 @ evs3 @ [EvRemove ctxTarName]))))))"

definition RunCBIBuild ::
  "run_env \<Rightarrow> Artifact \<Rightarrow> cbiBuildJobTemplateV1Alpha1 \<Rightarrow> run_result \<times> event list" where
  "RunCBIBuild env artifact t =
     (if template_APIVersion t \<noteq> SchemeGroupVersion
      then (Some (('''', Some (ErrUnsupportedVersion (template_APIVersion t))), t), [])
      else case kube_NewForConfig env of
             Some err \<Rightarrow>
               (Some (('''', Some err), t),
                [EvLog ''Running CBI Build, APIVersion=%s'' [template_APIVersion t]])
           | None \<Rightarrow>
               (case NewTempNginx (nginx_now env) (nginx_RandomID env) ''default'' of
                  None \<Rightarrow>
                    (None, [EvLog ''Running CBI Build, APIVersion=%s'' [template_APIVersion t]])
                | Some x \<Rightarrow>
                    (case RunCBIBuild_staged env ''default'' artifact t x of
                       (r, x', evs) \<Rightarrow>
                         (case TempNginx_Delete env x' of
                            (derr, devs) \<Rightarrow>
                              (r,
                               [EvLog ''Running CBI Build, APIVersion=%s'' [template_APIVersion t],
                                EvNewTempNginx (pod_Name (pod x))]
                                 @ evs @ devs)))))"

subsection \<open>The builder (package build)\<close>

record Build =
  b_ImageName :: string
  b_Tag :: string
  b_Artifact :: Artifact








subsection \<open>What a run shows\<close>


text \<open>What the caller of RunCBIBuild gets to see of a call: the return values, and the
  lines that were logged.\<close>

fun logged :: "event list \<Rightarrow> (string \<times> string list) list" where
  "logged [] = []"
| "logged (EvLog f args # evs) = (f, args) # logged evs"
| "logged (_ # evs) = logged evs"

definition caller_view ::
  "run_result \<times> event list \<Rightarrow> (string \<times> error option) option \<times> (string \<times> string list) list" where
  "caller_view r = (map_option fst (fst r), logged (snd r))"

text \<open>
  The events of the calls that RunCBIBuild and Build make themselves: the construction
  of the server handle, the call of its Delete, and the call of RunCBIBuild.
\<close>

fun outer_event :: "event \<Rightarrow> bool" where
  "outer_event (EvNewTempNginx n) = True"
| "outer_event EvTempNginxDelete = True"
| "outer_event (EvRunCBIBuild n) = True"
| "outer_event _ = False"

text \<open>
  The state of a condition after \<open>k\<close> calls, counted from the state the poll starts in.
\<close>

primrec after_calls :: "'s ConditionFunc \<Rightarrow> 's \<Rightarrow> nat \<Rightarrow> 's" where
  "after_calls fn s 0 = s"
| "after_calls fn s (Suc k) = snd (fn (after_calls fn s k))"

text \<open>
  The \<open>j\<close>-th Get of the completion poll is answered without an error by a job that has
  no completion time.
\<close>

definition job_pending :: "run_env \<Rightarrow> string \<Rightarrow> nat \<Rightarrow> bool" where
  "job_pending env jobName j =
     (snd (jobs_Get env j jobName) = None
      \<and> CompletionTime (job_Status (fst (jobs_Get env j jobName))) = None)"

text \<open>
  The answer to the \<open>k\<close>-th Get of the readiness poll that starts from the BuildJob
  \<open>b\<close>: each Get asks for the name of the object that the Get before it returned.
\<close>

definition fetched :: "run_env \<Rightarrow> BuildJob \<Rightarrow> nat \<Rightarrow> BuildJob \<times> error option" where
  "fetched env b k =
     buildjobs_Get env k (Name (ObjectMeta (fst (after_calls (ready_condition env) (b, []) k))))"

text \<open>
  The \<open>j\<close>-th Get of the readiness poll is answered without an error by a BuildJob whose
  status names no job yet.
\<close>

definition ready_pending :: "run_env \<Rightarrow> BuildJob \<Rightarrow> nat \<Rightarrow> bool" where
  "ready_pending env b j =
     (snd (fetched env b j) = None \<and> Job (Status (fst (fetched env b j))) = '''')"

subsection \<open>Example inputs\<close>

text \<open>A template whose overridden fields, and others, hold values of the caller's, and
  the template that Fulfill makes of it.\<close>

definition preset_template :: cbiBuildJobTemplateV1Alpha1 where
  "preset_template =
     \<lparr>bj = \<lparr>Kind = ''BuildJob'', APIVersion = SchemeGroupVersion,
             ObjectMeta = \<lparr>Name = ''job-1'', meta_Rest = [(''namespace'', ''ci'')]\<rparr>,
             Spec = \<lparr>spec_Registry = \<lparr>Target = ''other/image:old'', Push = False,
                                       SecretRef = \<lparr>ref_Name = ''regcred''\<rparr>\<rparr>,
                     spec_Language = \<lparr>lang_Kind = ''S2I'', lang_Rest = [(''s2i.baseImage'', ''x'')]\<rparr>,
                     spec_Context = \<lparr>ctx_Kind = ''Git'', ctx_HTTP = \<lparr>URL = ''http://old/ctx''\<rparr>,
                                     ctx_Rest = [(''git.url'', ''ssh://repo'')]\<rparr>,
                     PluginSelector = ''plugin.name=docker''\<rparr>,
             Status = \<lparr>Job = ''''\<rparr>\<rparr>\<rparr>"

definition fulfilled_preset :: cbiBuildJobTemplateV1Alpha1 where
  "fulfilled_preset =
     \<lparr>bj = \<lparr>Kind = ''BuildJob'', APIVersion = SchemeGroupVersion,
             ObjectMeta = \<lparr>Name = ''job-1'', meta_Rest = [(''namespace'', ''ci'')]\<rparr>,
             Spec = \<lparr>spec_Registry = \<lparr>Target = ''myapp:abc123'', Push = True,
                                       SecretRef = \<lparr>ref_Name = ''regcred''\<rparr>\<rparr>,
                     spec_Language = \<lparr>lang_Kind = ''S2I'', lang_Rest = [(''s2i.baseImage'', ''x'')]\<rparr>,
                     spec_Context = \<lparr>ctx_Kind = ''HTTP'', ctx_HTTP = \<lparr>URL = ''http://svc/x.tar.gz''\<rparr>,
                                     ctx_Rest = [(''git.url'', ''ssh://repo'')]\<rparr>,
                     PluginSelector = ''plugin.name=docker''\<rparr>,
             Status = \<lparr>Job = ''''\<rparr>\<rparr>\<rparr>"

text \<open>
  A YAML library that encodes every map and decodes every text to the zero BuildJob, and
  templates without an \<open>apiVersion\<close> key (one of its keys is not a string) and with
  one.
\<close>

definition yaml_env_ok :: yaml_env where
  "yaml_env_ok =
     \<lparr>yaml_Marshal = (\<lambda>m. (''yaml'', None)),
      yaml_UnmarshalStrict = (\<lambda>b. (empty_BuildJob, None))\<rparr>"

definition template_no_version :: CBIBuild where
  "template_no_version =
     \<lparr>BuildJobTemplate =
        [(YString ''kind'', YString ''BuildJob''),
         (YInt 1, YString ''apiVersion''),
         (YString ''spec'', YMap [(YString ''pluginSelector'', YString ''plugin.name=docker'')])]\<rparr>"

definition template_version_of :: "yaml \<Rightarrow> CBIBuild" where
  "template_version_of v =
     \<lparr>BuildJobTemplate =
        [(YString ''kind'', YString ''BuildJob''), (YString ''apiVersion'', v)]\<rparr>"

text \<open>
  The handle that NewTempNginx builds at clock reading 7 with the random id \<open>9f86d081\<close>.
\<close>

definition example_nginx :: TempNginx where
  "example_nginx =
     \<lparr>client_ns = ''default'', ns = '''',
      pod = \<lparr>pod_Name = ''tempnginx-7-9f'', pod_Labels = [(''nginx'', ''tempnginx-7-9f'')],
              pod_Containers = [\<lparr>c_Name = ''nginx'', c_Image = ''nginx:alpine'',
                                  c_ImagePullPolicy = ''IfNotPresent'', c_Ports = [80]\<rparr>]\<rparr>,
      service = \<lparr>svc_Name = ''tempnginx-7-9f'', svc_Ports = [80],
                  svc_Selector = [(''nginx'', ''tempnginx-7-9f'')]\<rparr>\<rparr>"

text \<open>
  A job that has not completed, a job that has completed with \<open>f\<close> failures, and a
  BuildJob with a given name and job reference.
\<close>

definition pending_job :: K8sJob where
  "pending_job = \<lparr>job_Status = \<lparr>CompletionTime = None, Failed = 0, js_Rest = []\<rparr>\<rparr>"

definition finished_job :: "32 word \<Rightarrow> K8sJob" where
  "finished_job f = \<lparr>job_Status = \<lparr>CompletionTime = Some 1530000060, Failed = f, js_Rest = []\<rparr>\<rparr>"

definition named_BuildJob :: "string \<Rightarrow> string \<Rightarrow> BuildJob" where
  "named_BuildJob n j =
     empty_BuildJob\<lparr>ObjectMeta := \<lparr>Name = n, meta_Rest = []\<rparr>, Status := \<lparr>Job = j\<rparr>\<rparr>"

text \<open>
  An environment in which every call succeeds: the BuildJob is accepted at the third Get
  and the job is complete, with no failure, at the fourth.
\<close>

definition happy_env :: run_env where
  "happy_env =
     \<lparr>kube_NewForConfig = None,
      nginx_now = 7,
      nginx_RandomID = ''9f86d081'',
      ioutil_TempFile = (''/tmp/skaffold-cbi-temp1'', None),
      pods_Create = (\<lambda>p. (p, None)),
      services_Create = (\<lambda>s. (s, None)),
      WaitForPodReady = (\<lambda>n. None),
      CreateDockerTarGzContext = (\<lambda>d w. None),
      CreateTarGz = (\<lambda>w. None),
      create_error_first = True,
      ctxTarDigest = (''sha256'', ''ab12''),
      cmd_Run = (\<lambda>c. ('''', None)),
      tag_RandomID = ''0a1b'',
      fulfill_now = 8,
      fulfill_RandomID = ''c4ca'',
      cbi_NewForConfig = None,
      buildjobs_Create = (\<lambda>b. (b, None)),
      buildjobs_Get = (\<lambda>k n. (if k < 2 then named_BuildJob n '''' else named_BuildJob n ''job-1'', None)),
      ready_ticks = 360,
      cmd_Start = (\<lambda>c. None),
      jobs_Get = (\<lambda>k n. (if k < 3 then pending_job else finished_job 0, None)),
      completion_ticks = 7200,
      services_Delete = (\<lambda>n. None),
      pods_Delete = (\<lambda>n. None)\<rparr>"

text \<open>
  A Docker artifact with the image name \<open>myapp\<close>.
\<close>

definition example_artifact :: Artifact where
  "example_artifact =
     \<lparr>ImageName = ''myapp'', Workspace = ''.'',
      DockerArtifact = Some \<lparr>DockerfilePath = ''Dockerfile'', BuildArgs = []\<rparr>,
      BazelArtifact = None, S2IArtifact = None\<rparr>"

text \<open>
  As \<open>happy_env\<close>, with the BuildJob accepted and the job complete at the first Get.
\<close>

definition quick_env :: run_env where
  "quick_env =
     happy_env\<lparr>buildjobs_Get := (\<lambda>k n. (named_BuildJob n ''job-1'', None)),
               jobs_Get := (\<lambda>k n. (finished_job 0, None))\<rparr>"

text \<open>
  As \<open>quick_env\<close>, with an API server that refuses to delete the service.
\<close>

definition delete_fails_env :: run_env where
  "delete_fails_env =
     quick_env\<lparr>services_Delete := (\<lambda>n. Some (ErrExternal ''services not found''))\<rparr>"

text \<open>
  As \<open>quick_env\<close>, with an API server that creates the pod and refuses to create the
  service: as the client library does on an error, the call returns an empty object with
  the error.  The service, which does not exist, cannot be deleted either.
\<close>

definition half_created_env :: run_env where
  "half_created_env =
     quick_env\<lparr>services_Create :=
                 (\<lambda>s. (\<lparr>svc_Name = '''', svc_Ports = [], svc_Selector = []\<rparr>,
                       Some (ErrExternal ''exceeded quota''))),
               services_Delete := (\<lambda>n. Some (ErrExternal ''services not found''))\<rparr>"



section \<open>Properties\<close>

subsection \<open>Formatting and the generated name\<close>

declare decimal.simps [simp del]

lemma decimal_simps_lt: "n < 10 \<Longrightarrow> decimal n = [digit_char n]"
  by (subst decimal.simps) simp

lemma decimal_simps_ge: "\<not> n < 10 \<Longrightarrow> decimal n = decimal (n div 10) @ [digit_char (n mod 10)]"
  by (subst decimal.simps) simp

lemma decimal_nonempty: "decimal n \<noteq> []"
  by (subst decimal.simps) simp

lemma digit_char_inj: "a < 10 \<Longrightarrow> b < 10 \<Longrightarrow> digit_char a = digit_char b \<Longrightarrow> a = b"
  unfolding digit_char_def
  by (simp add: char_of_eq_iff take_bit_nat_eq_self)

lemma decimal_inj: "decimal n = decimal m \<Longrightarrow> n = m"
proof (induction n arbitrary: m rule: decimal.induct)
  case (1 n)
  show ?case
  proof (cases "n < 10")
    case True
    show ?thesis
    proof (cases "m < 10")
      case mlt: True
      from 1(2) True mlt have "digit_char n = digit_char m"
        by (simp add: decimal_simps_lt)
      with True mlt show ?thesis by (rule_tac digit_char_inj)
    next
      case False
      with 1(2) True have "[digit_char n] = decimal (m div 10) @ [digit_char (m mod 10)]"
        by (simp add: decimal_simps_lt decimal_simps_ge)
      then have "decimal (m div 10) = []" by simp
      then show ?thesis by (simp add: decimal_nonempty)
    qed
  next
    case False
    show ?thesis
    proof (cases "m < 10")
      case True
      with 1(2) False have "decimal (n div 10) @ [digit_char (n mod 10)] = [digit_char m]"
        by (simp add: decimal_simps_lt decimal_simps_ge)
      then have "decimal (n div 10) = []" by simp
      then show ?thesis by (simp add: decimal_nonempty)
    next
      case mge: False
      from 1(2) False mge
      have eq: "decimal (n div 10) @ [digit_char (n mod 10)] = decimal (m div 10) @ [digit_char (m mod 10)]"
        by (simp add: decimal_simps_ge)
      then have a: "decimal (n div 10) = decimal (m div 10)"
        and b: "digit_char (n mod 10) = digit_char (m mod 10)" by simp_all
      from 1(1)[OF False a] have "n div 10 = m div 10" .
      moreover from b have "n mod 10 = m mod 10" by (rule_tac digit_char_inj) simp_all
      ultimately show ?thesis by (metis div_mult_mod_eq)
    qed
  qed
qed


lemma of_char_digit_char: "d < 10 \<Longrightarrow> of_char (digit_char d) = 48 + d"
  unfolding digit_char_def by (simp add: take_bit_nat_eq_self)

lemma digit_char_not_minus: "d < 10 \<Longrightarrow> digit_char d \<noteq> CHR ''-''"
proof
  assume d: "d < 10" and eq: "digit_char d = CHR ''-''"
  have "(of_char (digit_char d) :: nat) = 48 + d" using d by (rule of_char_digit_char)
  moreover have "(of_char (CHR ''-'') :: nat) = 45" by simp
  ultimately show False using eq by simp
qed

lemma decimal_no_minus: "CHR ''-'' \<notin> set (decimal n)"
proof (induction n rule: decimal.induct)
  case (1 n)
  show ?case
  proof (cases "n < 10")
    case True
    then show ?thesis using digit_char_not_minus [of n] by (simp add: decimal_simps_lt)
  next
    case False
    then show ?thesis using 1 digit_char_not_minus [of "n mod 10"]
      by (simp add: decimal_simps_ge)
  qed
qed

lemma fmt_d_inj: "fmt_d a = fmt_d b \<Longrightarrow> a = b"
proof -
  assume eq: "fmt_d a = fmt_d b"
  have nm: "\<And>n xs. decimal n \<noteq> CHR ''-'' # xs"
    using decimal_no_minus by (metis list.set_intros(1))
  show ?thesis
  proof (cases "a < 0")
    case True
    show ?thesis
    proof (cases "b < 0")
      case bneg: True
      with eq True have "decimal (nat (- a)) = decimal (nat (- b))" by (simp add: fmt_d_def)
      then have "nat (- a) = nat (- b)" by (rule decimal_inj)
      with True bneg show ?thesis by simp
    next
      case False
      with eq True have "decimal (nat b) = CHR ''-'' # decimal (nat (- a))"
        by (simp add: fmt_d_def)
      with nm show ?thesis by blast
    qed
  next
    case False
    show ?thesis
    proof (cases "b < 0")
      case True
      with eq False have "decimal (nat a) = CHR ''-'' # decimal (nat (- b))"
        by (simp add: fmt_d_def)
      with nm show ?thesis by blast
    next
      case bpos: False
      with eq False have "decimal (nat a) = decimal (nat b)" by (simp add: fmt_d_def)
      then have "nat a = nat b" by (rule decimal_inj)
      with False bpos show ?thesis by simp
    qed
  qed
qed

lemma fmt_d_nonempty: "fmt_d a \<noteq> []"
  by (simp add: fmt_d_def decimal_nonempty)

lemma generated_name_Some:
  "generated_name now rid = Some n \<longleftrightarrow>
     rid \<noteq> [] \<and> n = ''skaffold-'' @ fmt_d (sint now) @ ''-'' @ [hd rid]"
  by (cases rid) (auto simp: generated_name_def slice_to_def)

lemma generated_name_inj:
  assumes "generated_name now rid = Some n" and "generated_name now' rid' = Some n"
  shows "now = now' \<and> hd rid = hd rid'"
proof -
  from assms have "''skaffold-'' @ fmt_d (sint now) @ ''-'' @ [hd rid]
      = ''skaffold-'' @ fmt_d (sint now') @ ''-'' @ [hd rid']"
    by (simp add: generated_name_Some)
  then have "(fmt_d (sint now) @ ''-'') @ [hd rid] = (fmt_d (sint now') @ ''-'') @ [hd rid']"
    by simp
  then have "fmt_d (sint now) @ ''-'' = fmt_d (sint now') @ ''-''" and h: "hd rid = hd rid'"
    by (simp_all only: append1_eq_conv)
  then have "fmt_d (sint now) = fmt_d (sint now')" by simp
  then have "sint now = sint now'" by (rule fmt_d_inj)
  then have "now = now'" by (simp add: signed_word_eqI)
  with h show ?thesis by simp
qed

lemma fulfill_if_empty_Some:
  "fulfill_if_empty now rid b = Some b' \<Longrightarrow>
     b' = b\<lparr>APIVersion := (if APIVersion b = '''' then SchemeGroupVersion else APIVersion b),
            Kind := (if Kind b = '''' then ''BuildJob'' else Kind b),
            ObjectMeta := (ObjectMeta b)\<lparr>Name :=
               (if Name (ObjectMeta b) = '''' then the (generated_name now rid)
                else Name (ObjectMeta b))\<rparr>,
            Spec := (Spec b)\<lparr>spec_Language := (spec_Language (Spec b))\<lparr>lang_Kind :=
               (if lang_Kind (spec_Language (Spec b)) = '''' then LanguageKindDockerfile
                else lang_Kind (spec_Language (Spec b)))\<rparr>\<rparr>\<rparr>
     \<and> (Name (ObjectMeta b) = '''' \<longrightarrow> generated_name now rid \<noteq> None)"
  by (auto simp: fulfill_if_empty_def Let_def split: if_splits option.splits)

lemma fulfill_if_empty_total:
  "rid \<noteq> [] \<or> Name (ObjectMeta b) \<noteq> '''' \<Longrightarrow> \<exists>b'. fulfill_if_empty now rid b = Some b'"
  by (cases rid) (auto simp: fulfill_if_empty_def Let_def generated_name_def slice_to_def)


lemma Fulfill_Some:
  "Fulfill now rid img url t = Some (e, t') \<Longrightarrow>
     e = None \<and> (\<exists>b. fulfill_if_empty now rid (bj t) = Some b \<and> t' = t\<lparr>bj := override img url b\<rparr>)"
  by (auto simp: Fulfill_def split: option.splits)

lemma Fulfill_total:
  "rid \<noteq> [] \<or> Name (ObjectMeta (bj t)) \<noteq> '''' \<Longrightarrow>
     \<exists>t'. Fulfill now rid img url t = Some (None, t')"
  using fulfill_if_empty_total [of rid "bj t" now] by (auto simp: Fulfill_def)

lemma override_fields:
  "Target (spec_Registry (Spec (override img url b))) = img"
  "Push (spec_Registry (Spec (override img url b)))"
  "ctx_Kind (spec_Context (Spec (override img url b))) = ContextKindHTTP"
  "URL (ctx_HTTP (spec_Context (Spec (override img url b)))) = url"
  by (simp_all add: override_def Let_def)

lemma override_frame:
  "override img url b =
     b\<lparr>Spec := (Spec b)\<lparr>
          spec_Registry := (spec_Registry (Spec b))\<lparr>Target := img, Push := True\<rparr>,
          spec_Context := (spec_Context (Spec b))\<lparr>ctx_Kind := ContextKindHTTP,
                                                  ctx_HTTP := \<lparr>URL = url\<rparr>\<rparr>\<rparr>\<rparr>"
  by (simp add: override_def Let_def)

text \<open>
  Claim C3.  Fulfill overwrites the registry target with the image name, the push flag
  with true, the context kind with HTTP and the HTTP context URL with the URL given,
  whatever the template held in these fields.  Fulfill returns, with a nil error, unless
  the slice of the random id panics: that needs an empty name in the template and an
  empty random id.
\<close>

theorem Fulfill_overrides:
  assumes "rid \<noteq> [] \<or> Name (ObjectMeta (bj t)) \<noteq> ''''"
  shows "\<exists>t'. Fulfill now rid imageName httpContextURL t = Some (None, t')
           \<and> Target (spec_Registry (Spec (bj t'))) = imageName
           \<and> Push (spec_Registry (Spec (bj t'))) = True
           \<and> ctx_Kind (spec_Context (Spec (bj t'))) = ''HTTP''
           \<and> URL (ctx_HTTP (spec_Context (Spec (bj t')))) = httpContextURL"
proof -
  from assms obtain t' where r: "Fulfill now rid imageName httpContextURL t = Some (None, t')"
    using Fulfill_total by blast
  then obtain b where "t' = t\<lparr>bj := override imageName httpContextURL b\<rparr>"
    using Fulfill_Some by blast
  then show ?thesis using r by (simp add: override_fields ContextKindHTTP_def)
qed

text \<open>The template \<open>preset_template\<close> has all four fields set by the caller.\<close>

theorem Fulfill_overrides_witness:
  "''9f'' \<noteq> []
   \<and> Target (spec_Registry (Spec (bj preset_template))) = ''other/image:old''
   \<and> (\<exists>t'. Fulfill 7 ''9f'' ''myapp:abc123'' ''http://svc/x.tar.gz'' preset_template = Some (None, t')
           \<and> Target (spec_Registry (Spec (bj t'))) = ''myapp:abc123''
           \<and> Push (spec_Registry (Spec (bj t'))) = True
           \<and> ctx_Kind (spec_Context (Spec (bj t'))) = ''HTTP''
           \<and> URL (ctx_HTTP (spec_Context (Spec (bj t')))) = ''http://svc/x.tar.gz'')"
  using Fulfill_overrides [of "''9f''" preset_template 7 "''myapp:abc123''" "''http://svc/x.tar.gz''"]
  by (simp add: preset_template_def)

text \<open>
  Claim C9.  Fulfill leaves the name of the registry secret as it was, and the template
  it leaves differs from the one it was given at most in the API version, the kind, the
  name, the language kind, the registry target, the push flag, and the kind and the HTTP
  part of the context.
\<close>

theorem Fulfill_frame:
  assumes "Fulfill now rid imageName httpContextURL t = Some (e, t')"
  shows "ref_Name (SecretRef (spec_Registry (Spec (bj t'))))
           = ref_Name (SecretRef (spec_Registry (Spec (bj t))))
         \<and> t' = t\<lparr>bj := (bj t)\<lparr>
                   APIVersion := APIVersion (bj t'),
                   Kind := Kind (bj t'),
                   ObjectMeta := (ObjectMeta (bj t))\<lparr>Name := Name (ObjectMeta (bj t'))\<rparr>,
                   Spec := (Spec (bj t))\<lparr>
                     spec_Language := (spec_Language (Spec (bj t)))\<lparr>
                        lang_Kind := lang_Kind (spec_Language (Spec (bj t')))\<rparr>,
                     spec_Registry := (spec_Registry (Spec (bj t)))\<lparr>
                        Target := Target (spec_Registry (Spec (bj t'))),
                        Push := Push (spec_Registry (Spec (bj t')))\<rparr>,
                     spec_Context := (spec_Context (Spec (bj t)))\<lparr>
                        ctx_Kind := ctx_Kind (spec_Context (Spec (bj t'))),
                        ctx_HTTP := ctx_HTTP (spec_Context (Spec (bj t')))\<rparr>\<rparr>\<rparr>\<rparr>"
proof -
  from assms obtain b where b: "fulfill_if_empty now rid (bj t) = Some b"
    and t': "t' = t\<lparr>bj := override imageName httpContextURL b\<rparr>"
    using Fulfill_Some by blast
  note fb = fulfill_if_empty_Some [OF b, THEN conjunct1]
  have bjt': "bj t' = override imageName httpContextURL b" using t' by simp
  have more: "cbiBuildJobTemplateV1Alpha1.more t' = cbiBuildJobTemplateV1Alpha1.more t"
    using t' by simp
  have 1: "ObjectMeta (bj t') = (ObjectMeta (bj t))\<lparr>Name := Name (ObjectMeta (bj t'))\<rparr>"
    unfolding bjt' override_frame by (subst (1 2) fb) simp
  have 2: "Status (bj t') = Status (bj t)"
    unfolding bjt' override_frame by (subst fb) simp
  have 3: "PluginSelector (Spec (bj t')) = PluginSelector (Spec (bj t))"
    unfolding bjt' override_frame by (subst fb) simp
  have 4: "spec_Language (Spec (bj t')) = (spec_Language (Spec (bj t)))\<lparr>
             lang_Kind := lang_Kind (spec_Language (Spec (bj t')))\<rparr>"
    unfolding bjt' override_frame by (subst (1 2) fb) simp
  have 5: "spec_Registry (Spec (bj t')) = (spec_Registry (Spec (bj t)))\<lparr>
             Target := Target (spec_Registry (Spec (bj t'))),
             Push := Push (spec_Registry (Spec (bj t')))\<rparr>"
    unfolding bjt' override_frame by (subst (1 2 3) fb) simp
  have 6: "spec_Context (Spec (bj t')) = (spec_Context (Spec (bj t)))\<lparr>
             ctx_Kind := ctx_Kind (spec_Context (Spec (bj t'))),
             ctx_HTTP := ctx_HTTP (spec_Context (Spec (bj t')))\<rparr>"
    unfolding bjt' override_frame by (subst (1 2 3) fb) simp
  have 7: "BuildJob.more (bj t') = BuildJob.more (bj t)"
    unfolding bjt' override_frame by (subst fb) simp
  have 8: "BuildJobSpec.more (Spec (bj t')) = BuildJobSpec.more (Spec (bj t))"
    unfolding bjt' override_frame by (subst fb) simp
  have spec: "Spec (bj t') = (Spec (bj t))\<lparr>
                     spec_Language := (spec_Language (Spec (bj t)))\<lparr>
                        lang_Kind := lang_Kind (spec_Language (Spec (bj t')))\<rparr>,
                     spec_Registry := (spec_Registry (Spec (bj t)))\<lparr>
                        Target := Target (spec_Registry (Spec (bj t'))),
                        Push := Push (spec_Registry (Spec (bj t')))\<rparr>,
                     spec_Context := (spec_Context (Spec (bj t)))\<lparr>
                        ctx_Kind := ctx_Kind (spec_Context (Spec (bj t'))),
                        ctx_HTTP := ctx_HTTP (spec_Context (Spec (bj t')))\<rparr>\<rparr>"
    by (rule BuildJobSpec.equality) (simp_all add: 3 4 [symmetric] 5 [symmetric] 6 [symmetric] 8)
  have job: "bj t' = (bj t)\<lparr>
                   APIVersion := APIVersion (bj t'),
                   Kind := Kind (bj t'),
                   ObjectMeta := (ObjectMeta (bj t))\<lparr>Name := Name (ObjectMeta (bj t'))\<rparr>,
                   Spec := Spec (bj t')\<rparr>"
    by (rule BuildJob.equality) (simp_all add: 1 [symmetric] 2 7)
  have "t' = t\<lparr>bj := bj t'\<rparr>"
    by (rule cbiBuildJobTemplateV1Alpha1.equality) (simp_all add: more)
  then have whole: "t' = t\<lparr>bj := (bj t)\<lparr>
                   APIVersion := APIVersion (bj t'),
                   Kind := Kind (bj t'),
                   ObjectMeta := (ObjectMeta (bj t))\<lparr>Name := Name (ObjectMeta (bj t'))\<rparr>,
                   Spec := Spec (bj t')\<rparr>\<rparr>"
    using job by simp
  have secret: "ref_Name (SecretRef (spec_Registry (Spec (bj t'))))
           = ref_Name (SecretRef (spec_Registry (Spec (bj t))))"
    by (subst 5) simp
  show ?thesis
    by (rule conjI [OF secret]) (subst spec [symmetric], rule whole)
qed


lemma Fulfill_defaults:
  assumes "Fulfill now rid imageName url t = Some (e, t')"
  shows "APIVersion (bj t') = (if APIVersion (bj t) = '''' then SchemeGroupVersion else APIVersion (bj t))"
    and "Kind (bj t') = (if Kind (bj t) = '''' then ''BuildJob'' else Kind (bj t))"
    and "Name (ObjectMeta (bj t')) = (if Name (ObjectMeta (bj t)) = ''''
            then ''skaffold-'' @ fmt_d (sint now) @ ''-'' @ [hd rid] else Name (ObjectMeta (bj t)))"
    and "lang_Kind (spec_Language (Spec (bj t')))
           = (if lang_Kind (spec_Language (Spec (bj t))) = '''' then ''Dockerfile''
              else lang_Kind (spec_Language (Spec (bj t))))"
proof -
  from assms obtain b where b: "fulfill_if_empty now rid (bj t) = Some b"
    and t': "t' = t\<lparr>bj := override imageName url b\<rparr>"
    using Fulfill_Some by blast
  note fb = fulfill_if_empty_Some [OF b, THEN conjunct1]
  note gen = fulfill_if_empty_Some [OF b, THEN conjunct2]
  have bjt': "bj t' = override imageName url b" using t' by simp
  show "APIVersion (bj t') = (if APIVersion (bj t) = '''' then SchemeGroupVersion else APIVersion (bj t))"
    unfolding bjt' override_frame by (subst fb) simp
  show "Kind (bj t') = (if Kind (bj t) = '''' then ''BuildJob'' else Kind (bj t))"
    unfolding bjt' override_frame by (subst fb) simp
  show "lang_Kind (spec_Language (Spec (bj t')))
           = (if lang_Kind (spec_Language (Spec (bj t))) = '''' then ''Dockerfile''
              else lang_Kind (spec_Language (Spec (bj t))))"
    unfolding bjt' override_frame by (subst fb) (simp add: LanguageKindDockerfile_def)
  have "Name (ObjectMeta (bj t')) = (if Name (ObjectMeta (bj t)) = ''''
            then the (generated_name now rid) else Name (ObjectMeta (bj t)))"
    unfolding bjt' override_frame by (subst fb) simp
  then show "Name (ObjectMeta (bj t')) = (if Name (ObjectMeta (bj t)) = ''''
            then ''skaffold-'' @ fmt_d (sint now) @ ''-'' @ [hd rid] else Name (ObjectMeta (bj t)))"
    using gen by (cases rid) (auto simp: generated_name_def slice_to_def)
qed

text \<open>
  Claim C4, as amended.  On the empty template Fulfill returns with the kind BuildJob,
  the language kind Dockerfile, the registry target and the context URL given, push true,
  the context kind HTTP, and a name that is not empty.  The name is \<open>skaffold-\<close>, the
  clock reading, a dash and the first character of the random id.  A second call on the
  empty template is given the same name exactly when it has the same clock reading and
  the same first character of the random id: the name is unique among the calls that
  differ in the reading or in that character, and among no others.  On any template, the
  API version, the kind, the name and the language kind get their defaults exactly when
  they were empty, and keep their values otherwise.
\<close>

theorem Fulfill_empty_template:
  assumes "rid \<noteq> []"
  shows "\<exists>t'. Fulfill now rid targetImage contextURL \<lparr>bj = empty_BuildJob\<rparr> = Some (None, t')
           \<and> Kind (bj t') = ''BuildJob''
           \<and> APIVersion (bj t') = ''cbi.containerbuilding.github.io/v1alpha1''
           \<and> lang_Kind (spec_Language (Spec (bj t'))) = ''Dockerfile''
           \<and> Target (spec_Registry (Spec (bj t'))) = targetImage
           \<and> Push (spec_Registry (Spec (bj t'))) = True
           \<and> ctx_Kind (spec_Context (Spec (bj t'))) = ''HTTP''
           \<and> URL (ctx_HTTP (spec_Context (Spec (bj t')))) = contextURL
           \<and> Name (ObjectMeta (bj t')) = ''skaffold-'' @ fmt_d (sint now) @ ''-'' @ [hd rid]
           \<and> Name (ObjectMeta (bj t')) \<noteq> ''''
           \<and> (\<forall>now2 rid2 image2 url2 t2.
                 Fulfill now2 rid2 image2 url2 \<lparr>bj = empty_BuildJob\<rparr> = Some (None, t2) \<longrightarrow>
                 (Name (ObjectMeta (bj t2)) = Name (ObjectMeta (bj t'))
                    \<longleftrightarrow> now2 = now \<and> hd rid2 = hd rid))
           \<and> (\<forall>t e t2. Fulfill now rid targetImage contextURL t = Some (e, t2) \<longrightarrow>
                 (APIVersion (bj t2) = (if APIVersion (bj t) = ''''
                     then ''cbi.containerbuilding.github.io/v1alpha1'' else APIVersion (bj t)))
               \<and> (Kind (bj t2) = (if Kind (bj t) = '''' then ''BuildJob'' else Kind (bj t)))
               \<and> (Name (ObjectMeta (bj t2)) = (if Name (ObjectMeta (bj t)) = ''''
                     then ''skaffold-'' @ fmt_d (sint now) @ ''-'' @ [hd rid]
                     else Name (ObjectMeta (bj t))))
               \<and> (lang_Kind (spec_Language (Spec (bj t2)))
                     = (if lang_Kind (spec_Language (Spec (bj t))) = '''' then ''Dockerfile''
                        else lang_Kind (spec_Language (Spec (bj t))))))"
proof -
  let ?e = "\<lparr>bj = empty_BuildJob\<rparr>"
  from assms obtain t' where r: "Fulfill now rid targetImage contextURL ?e = Some (None, t')"
    using Fulfill_total by blast
  obtain b where t': "t' = ?e\<lparr>bj := override targetImage contextURL b\<rparr>"
    using Fulfill_Some [OF r] by blast
  note d = Fulfill_defaults [OF r]
  have name: "Name (ObjectMeta (bj t')) = ''skaffold-'' @ fmt_d (sint now) @ ''-'' @ [hd rid]"
    using d(3) by (simp add: empty_BuildJob_def)
  have gen: "generated_name now rid = Some (Name (ObjectMeta (bj t')))"
    using assms name by (simp add: generated_name_Some)
  have uniq: "Name (ObjectMeta (bj t2)) = Name (ObjectMeta (bj t'))
                \<longleftrightarrow> now2 = now \<and> hd rid2 = hd rid"
    if r2: "Fulfill now2 rid2 image2 url2 ?e = Some (None, t2)" for now2 rid2 image2 url2 t2
  proof
    assume eq: "Name (ObjectMeta (bj t2)) = Name (ObjectMeta (bj t'))"
    obtain b2 where b2: "fulfill_if_empty now2 rid2 (bj ?e) = Some b2"
      using Fulfill_Some [OF r2] by blast
    have "generated_name now2 rid2 \<noteq> None"
      using fulfill_if_empty_Some [OF b2, THEN conjunct2] by (simp add: empty_BuildJob_def)
    then have ne2: "rid2 \<noteq> []" by (auto simp: generated_name_Some)
    have "Name (ObjectMeta (bj t2)) = ''skaffold-'' @ fmt_d (sint now2) @ ''-'' @ [hd rid2]"
      using Fulfill_defaults(3) [OF r2] by (simp add: empty_BuildJob_def)
    with ne2 eq have "generated_name now2 rid2 = Some (Name (ObjectMeta (bj t')))"
      by (simp add: generated_name_Some)
    from generated_name_inj [OF this gen] show "now2 = now \<and> hd rid2 = hd rid" by simp
  next
    assume same: "now2 = now \<and> hd rid2 = hd rid"
    have "Name (ObjectMeta (bj t2)) = ''skaffold-'' @ fmt_d (sint now2) @ ''-'' @ [hd rid2]"
      using Fulfill_defaults(3) [OF r2] by (simp add: empty_BuildJob_def)
    with same name show "Name (ObjectMeta (bj t2)) = Name (ObjectMeta (bj t'))" by simp
  qed
  have fields: "Kind (bj t') = ''BuildJob''"
    "APIVersion (bj t') = ''cbi.containerbuilding.github.io/v1alpha1''"
    "lang_Kind (spec_Language (Spec (bj t'))) = ''Dockerfile''"
    using d(1,2,4) by (simp_all add: empty_BuildJob_def SchemeGroupVersion_def)
  have over: "Target (spec_Registry (Spec (bj t'))) = targetImage"
    "Push (spec_Registry (Spec (bj t'))) = True"
    "ctx_Kind (spec_Context (Spec (bj t'))) = ''HTTP''"
    "URL (ctx_HTTP (spec_Context (Spec (bj t')))) = contextURL"
    using t' by (simp_all add: override_fields ContextKindHTTP_def)
  have dflt: "(APIVersion (bj t2) = (if APIVersion (bj t) = ''''
                     then ''cbi.containerbuilding.github.io/v1alpha1'' else APIVersion (bj t)))
               \<and> (Kind (bj t2) = (if Kind (bj t) = '''' then ''BuildJob'' else Kind (bj t)))
               \<and> (Name (ObjectMeta (bj t2)) = (if Name (ObjectMeta (bj t)) = ''''
                     then ''skaffold-'' @ fmt_d (sint now) @ ''-'' @ [hd rid]
                     else Name (ObjectMeta (bj t))))
               \<and> (lang_Kind (spec_Language (Spec (bj t2)))
                     = (if lang_Kind (spec_Language (Spec (bj t))) = '''' then ''Dockerfile''
                        else lang_Kind (spec_Language (Spec (bj t)))))"
    if "Fulfill now rid targetImage contextURL t = Some (e, t2)" for t e t2
    using Fulfill_defaults [OF that] by (simp add: SchemeGroupVersion_def)
  have nonempty: "Name (ObjectMeta (bj t')) \<noteq> ''''" using name by simp
  have u: "\<forall>now2 rid2 image2 url2 t2.
                 Fulfill now2 rid2 image2 url2 ?e = Some (None, t2) \<longrightarrow>
                 (Name (ObjectMeta (bj t2)) = Name (ObjectMeta (bj t'))
                    \<longleftrightarrow> now2 = now \<and> hd rid2 = hd rid)"
    using uniq by blast
  have dd: "\<forall>t e t2. Fulfill now rid targetImage contextURL t = Some (e, t2) \<longrightarrow>
                 (APIVersion (bj t2) = (if APIVersion (bj t) = ''''
                     then ''cbi.containerbuilding.github.io/v1alpha1'' else APIVersion (bj t)))
               \<and> (Kind (bj t2) = (if Kind (bj t) = '''' then ''BuildJob'' else Kind (bj t)))
               \<and> (Name (ObjectMeta (bj t2)) = (if Name (ObjectMeta (bj t)) = ''''
                     then ''skaffold-'' @ fmt_d (sint now) @ ''-'' @ [hd rid]
                     else Name (ObjectMeta (bj t))))
               \<and> (lang_Kind (spec_Language (Spec (bj t2)))
                     = (if lang_Kind (spec_Language (Spec (bj t))) = '''' then ''Dockerfile''
                        else lang_Kind (spec_Language (Spec (bj t)))))"
    using dflt by blast
  show ?thesis
    by (intro exI [of _ t'] conjI r fields over name nonempty u dd)
qed

lemma digit_char_simps:
  "digit_char 0 = CHR ''0''" "digit_char 1 = CHR ''1''" "digit_char 2 = CHR ''2''"
  "digit_char 3 = CHR ''3''" "digit_char 4 = CHR ''4''" "digit_char 5 = CHR ''5''"
  "digit_char 6 = CHR ''6''" "digit_char 7 = CHR ''7''" "digit_char 8 = CHR ''8''"
  "digit_char 9 = CHR ''9''" "digit_char (Suc 0) = CHR ''1''"
  by code_simp+

lemmas fmt_d_eval = fmt_d_def decimal_simps_lt decimal_simps_ge digit_char_simps

text \<open>
  The example of the spec: target \<open>myapp:abc123\<close>, context \<open>http://svc/x.tar.gz\<close>.
  A call one nanosecond later is given another name; a call at the same reading whose
  random id starts with the same character is given the same name.
\<close>

theorem Fulfill_empty_template_witness:
  "''9f86d081'' \<noteq> []
   \<and> (\<exists>t' t2 t3.
         Fulfill 1530000000000000000 ''9f86d081'' ''myapp:abc123'' ''http://svc/x.tar.gz''
              \<lparr>bj = empty_BuildJob\<rparr> = Some (None, t')
       \<and> Kind (bj t') = ''BuildJob''
       \<and> lang_Kind (spec_Language (Spec (bj t'))) = ''Dockerfile''
       \<and> Target (spec_Registry (Spec (bj t'))) = ''myapp:abc123''
       \<and> Push (spec_Registry (Spec (bj t'))) = True
       \<and> ctx_Kind (spec_Context (Spec (bj t'))) = ''HTTP''
       \<and> URL (ctx_HTTP (spec_Context (Spec (bj t')))) = ''http://svc/x.tar.gz''
       \<and> Name (ObjectMeta (bj t')) = ''skaffold-1530000000000000000-9''
       \<and> Fulfill 1530000000000000001 ''9f86d081'' ''web:def456'' ''http://svc/y.tar.gz''
              \<lparr>bj = empty_BuildJob\<rparr> = Some (None, t2)
       \<and> Name (ObjectMeta (bj t2)) = ''skaffold-1530000000000000001-9''
       \<and> Name (ObjectMeta (bj t2)) \<noteq> Name (ObjectMeta (bj t'))
       \<and> Fulfill 1530000000000000000 ''9a00ffff'' ''web:def456'' ''http://svc/y.tar.gz''
              \<lparr>bj = empty_BuildJob\<rparr> = Some (None, t3)
       \<and> Name (ObjectMeta (bj t3)) = Name (ObjectMeta (bj t')))"
proof -
  let ?e = "\<lparr>bj = empty_BuildJob\<rparr>"
  have h: "''9f86d081'' \<noteq> []" by simp
  have h3: "''9a00ffff'' \<noteq> []" by simp
  have n: "''skaffold-'' @ fmt_d (sint (1530000000000000000 :: 64 word)) @ ''-'' @ [hd ''9f86d081'']
             = ''skaffold-1530000000000000000-9''"
    by (simp add: fmt_d_eval)
  have n2: "''skaffold-'' @ fmt_d (sint (1530000000000000001 :: 64 word)) @ ''-'' @ [hd ''9f86d081'']
             = ''skaffold-1530000000000000001-9''"
    by (simp add: fmt_d_eval)
  from Fulfill_empty_template [OF h, of 1530000000000000000 "''myapp:abc123''" "''http://svc/x.tar.gz''"]
  obtain t' where r: "Fulfill 1530000000000000000 ''9f86d081'' ''myapp:abc123'' ''http://svc/x.tar.gz''
              ?e = Some (None, t')"
    and f: "Kind (bj t') = ''BuildJob''"
      "lang_Kind (spec_Language (Spec (bj t'))) = ''Dockerfile''"
      "Target (spec_Registry (Spec (bj t'))) = ''myapp:abc123''"
      "Push (spec_Registry (Spec (bj t'))) = True"
      "ctx_Kind (spec_Context (Spec (bj t'))) = ''HTTP''"
      "URL (ctx_HTTP (spec_Context (Spec (bj t')))) = ''http://svc/x.tar.gz''"
    and nm: "Name (ObjectMeta (bj t'))
           = ''skaffold-'' @ fmt_d (sint (1530000000000000000 :: 64 word)) @ ''-'' @ [hd ''9f86d081'']"
    and u: "\<forall>now2 rid2 image2 url2 t2.
                 Fulfill now2 rid2 image2 url2 ?e = Some (None, t2) \<longrightarrow>
                 (Name (ObjectMeta (bj t2)) = Name (ObjectMeta (bj t'))
                    \<longleftrightarrow> now2 = 1530000000000000000 \<and> hd rid2 = hd ''9f86d081'')"
    by blast
  from Fulfill_empty_template [OF h, of 1530000000000000001 "''web:def456''" "''http://svc/y.tar.gz''"]
  obtain t2 where r2: "Fulfill 1530000000000000001 ''9f86d081'' ''web:def456'' ''http://svc/y.tar.gz''
              ?e = Some (None, t2)"
    and nm2: "Name (ObjectMeta (bj t2))
           = ''skaffold-'' @ fmt_d (sint (1530000000000000001 :: 64 word)) @ ''-'' @ [hd ''9f86d081'']"
    by blast
  from Fulfill_empty_template [OF h3, of 1530000000000000000 "''web:def456''" "''http://svc/y.tar.gz''"]
  obtain t3 where r3: "Fulfill 1530000000000000000 ''9a00ffff'' ''web:def456'' ''http://svc/y.tar.gz''
              ?e = Some (None, t3)"
    by blast
  have d2: "Name (ObjectMeta (bj t2)) \<noteq> Name (ObjectMeta (bj t'))"
    using u [THEN spec, THEN spec, THEN spec, THEN spec, THEN spec, THEN mp, OF r2] by simp
  have d3: "Name (ObjectMeta (bj t3)) = Name (ObjectMeta (bj t'))"
    using u [THEN spec, THEN spec, THEN spec, THEN spec, THEN spec, THEN mp, OF r3] by simp
  show ?thesis
    apply (rule conjI [OF h])
    apply (rule exI [of _ t'], rule exI [of _ t2], rule exI [of _ t3])
    apply (simp only: r r2 r3 f d3 simp_thms)
    using nm nm2 d2 n n2 apply simp
    done
qed

text \<open>
  Claim C4 as stated fails: the name is not unique.  Two calls on the empty template at
  the clock reading 7, for two images and with the two random ids \<open>9f86d081\<close> and
  \<open>9a00ffff\<close>, are both given the name \<open>skaffold-7-9\<close>, since only the first
  character of the random id enters the name.
\<close>

theorem generated_name_collides:
  "map_option (Name \<circ> ObjectMeta \<circ> bj \<circ> snd)
       (Fulfill 7 ''9f86d081'' ''myapp:abc123'' ''http://svc/x.tar.gz'' \<lparr>bj = empty_BuildJob\<rparr>)
     = Some ''skaffold-7-9''
   \<and> map_option (Name \<circ> ObjectMeta \<circ> bj \<circ> snd)
       (Fulfill 7 ''9a00ffff'' ''web:def456'' ''http://svc/y.tar.gz'' \<lparr>bj = empty_BuildJob\<rparr>)
     = Some ''skaffold-7-9''
   \<and> ''9f86d081'' \<noteq> ''9a00ffff''
   \<and> ''myapp:abc123'' \<noteq> ''web:def456''"
  by (simp add: Fulfill_def fulfill_if_empty_def generated_name_def slice_to_def override_def
      empty_BuildJob_def Let_def fmt_d_eval)

lemma Fulfill_preset:
  "Fulfill 7 ''9f'' ''myapp:abc123'' ''http://svc/x.tar.gz'' preset_template
     = Some (None, fulfilled_preset)"
  by (simp add: Fulfill_def fulfill_if_empty_def override_def preset_template_def
      fulfilled_preset_def SchemeGroupVersion_def ContextKindHTTP_def Let_def)

text \<open>On \<open>preset_template\<close> the secret stays \<open>regcred\<close>.\<close>

theorem Fulfill_frame_witness:
  "Fulfill 7 ''9f'' ''myapp:abc123'' ''http://svc/x.tar.gz'' preset_template
     = Some (None, fulfilled_preset)
   \<and> ref_Name (SecretRef (spec_Registry (Spec (bj fulfilled_preset)))) = ''regcred''
   \<and> ref_Name (SecretRef (spec_Registry (Spec (bj preset_template)))) = ''regcred''"
proof -
  have "ref_Name (SecretRef (spec_Registry (Spec (bj fulfilled_preset))))
          = ref_Name (SecretRef (spec_Registry (Spec (bj preset_template))))"
    using Fulfill_frame [OF Fulfill_preset] by (rule conjunct1)
  moreover have "ref_Name (SecretRef (spec_Registry (Spec (bj preset_template)))) = ''regcred''"
    by (simp add: preset_template_def)
  ultimately show ?thesis using Fulfill_preset by simp
qed

subsection \<open>GetBuildJobTemplate and the deletion of the server\<close>

lemma scan_no_key:
  "\<forall>v. (YString ''apiVersion'', v) \<notin> set items \<Longrightarrow> scan_apiVersion items = LoopEnd"
proof (induction items rule: scan_apiVersion.induct)
  case 1
  show ?case by simp
next
  case (2 k v items)
  then show ?case by auto
qed simp_all

lemma scan_skip_prefix:
  "\<forall>w. (YString ''apiVersion'', w) \<notin> set pre \<Longrightarrow>
     scan_apiVersion (pre @ items) = scan_apiVersion items"
proof (induction pre rule: scan_apiVersion.induct)
  case 1
  show ?case by simp
next
  case (2 k v items)
  then show ?case by auto
qed simp_all

lemma scan_first_entry:
  assumes "\<forall>w. (YString ''apiVersion'', w) \<notin> set pre"
  shows "scan_apiVersion (pre @ (YString ''apiVersion'', v) # post) =
           (case v of
              YString s \<Rightarrow> (if s = SchemeGroupVersion then GotoV1alpha1
                            else ReturnError (ErrExpectedVersion SchemeGroupVersion s))
            | _ \<Rightarrow> ReturnError ErrNonStringAPIVersion)"
  using scan_skip_prefix [OF assms] by simp

lemma GetBuildJobTemplate_scan:
  assumes "yaml_Marshal env (BuildJobTemplate p) = (b, None)"
  shows "GetBuildJobTemplate env p =
           (case scan_apiVersion (BuildJobTemplate p) of
              ReturnError err \<Rightarrow> (None, Some err)
            | _ \<Rightarrow> (case yaml_UnmarshalStrict env b of
                       (j, Some err) \<Rightarrow> (None, Some err)
                     | (j, None) \<Rightarrow> (Some \<lparr>bj = j\<rparr>, None)))"
  using assms by (simp add: GetBuildJobTemplate_def)

text \<open>
  Claim C10.  After the map is encoded, a template with no string key \<open>apiVersion\<close>
  runs the loop to its end and is decoded as a v1alpha1 template: the result is what
  UnmarshalStrict gives, never an error of the version check.  Where the first
  \<open>apiVersion\<close> item holds the supported version the template is decoded in the same
  way; where it holds another string, or a value that is not a string, the matching
  error is returned.  Every template returned reports the API version
  \<open>cbi.containerbuilding.github.io/v1alpha1\<close>.
\<close>

theorem GetBuildJobTemplate_version_check:
  assumes "yaml_Marshal env (BuildJobTemplate p) = (b, None)"
  shows "((\<forall>v. (YString ''apiVersion'', v) \<notin> set (BuildJobTemplate p)) \<longrightarrow>
            scan_apiVersion (BuildJobTemplate p) = LoopEnd
            \<and> (\<forall>j. yaml_UnmarshalStrict env b = (j, None) \<longrightarrow>
                   GetBuildJobTemplate env p = (Some \<lparr>bj = j\<rparr>, None))
            \<and> (\<forall>j err. yaml_UnmarshalStrict env b = (j, Some err) \<longrightarrow>
                   GetBuildJobTemplate env p = (None, Some err)))
       \<and> (\<forall>pre v post.
             BuildJobTemplate p = pre @ (YString ''apiVersion'', v) # post
             \<and> (\<forall>w. (YString ''apiVersion'', w) \<notin> set pre) \<longrightarrow>
               (v = YString ''cbi.containerbuilding.github.io/v1alpha1'' \<longrightarrow>
                  (\<forall>j. yaml_UnmarshalStrict env b = (j, None) \<longrightarrow>
                     GetBuildJobTemplate env p = (Some \<lparr>bj = j\<rparr>, None)))
             \<and> (\<forall>s. v = YString s \<and> s \<noteq> ''cbi.containerbuilding.github.io/v1alpha1'' \<longrightarrow>
                  GetBuildJobTemplate env p
                    = (None, Some (ErrExpectedVersion ''cbi.containerbuilding.github.io/v1alpha1'' s)))
             \<and> ((\<forall>s. v \<noteq> YString s) \<longrightarrow>
                  GetBuildJobTemplate env p = (None, Some ErrNonStringAPIVersion)))
       \<and> (\<forall>t. GetBuildJobTemplate env p = (Some t, None) \<longrightarrow>
             template_APIVersion t = ''cbi.containerbuilding.github.io/v1alpha1'')"
proof (intro conjI impI allI)
  assume "\<forall>v. (YString ''apiVersion'', v) \<notin> set (BuildJobTemplate p)"
  then show "scan_apiVersion (BuildJobTemplate p) = LoopEnd" by (rule scan_no_key)
next
  fix j
  assume "\<forall>v. (YString ''apiVersion'', v) \<notin> set (BuildJobTemplate p)"
    and "yaml_UnmarshalStrict env b = (j, None)"
  then show "GetBuildJobTemplate env p = (Some \<lparr>bj = j\<rparr>, None)"
    using GetBuildJobTemplate_scan [OF assms] scan_no_key [of "BuildJobTemplate p"] by simp
next
  fix j err
  assume "\<forall>v. (YString ''apiVersion'', v) \<notin> set (BuildJobTemplate p)"
    and "yaml_UnmarshalStrict env b = (j, Some err)"
  then show "GetBuildJobTemplate env p = (None, Some err)"
    using GetBuildJobTemplate_scan [OF assms] scan_no_key [of "BuildJobTemplate p"] by simp
next
  fix pre v post j
  assume "BuildJobTemplate p = pre @ (YString ''apiVersion'', v) # post
            \<and> (\<forall>w. (YString ''apiVersion'', w) \<notin> set pre)"
    and "v = YString ''cbi.containerbuilding.github.io/v1alpha1''"
    and "yaml_UnmarshalStrict env b = (j, None)"
  then show "GetBuildJobTemplate env p = (Some \<lparr>bj = j\<rparr>, None)"
    using GetBuildJobTemplate_scan [OF assms] scan_first_entry [of pre v post]
    by (simp add: SchemeGroupVersion_def)
next
  fix pre v post s
  assume "BuildJobTemplate p = pre @ (YString ''apiVersion'', v) # post
            \<and> (\<forall>w. (YString ''apiVersion'', w) \<notin> set pre)"
    and "v = YString s \<and> s \<noteq> ''cbi.containerbuilding.github.io/v1alpha1''"
  then show "GetBuildJobTemplate env p
               = (None, Some (ErrExpectedVersion ''cbi.containerbuilding.github.io/v1alpha1'' s))"
    using GetBuildJobTemplate_scan [OF assms] scan_first_entry [of pre v post]
    by (simp add: SchemeGroupVersion_def)
next
  fix pre v post
  assume "BuildJobTemplate p = pre @ (YString ''apiVersion'', v) # post
            \<and> (\<forall>w. (YString ''apiVersion'', w) \<notin> set pre)"
    and "\<forall>s. v \<noteq> YString s"
  then show "GetBuildJobTemplate env p = (None, Some ErrNonStringAPIVersion)"
    using GetBuildJobTemplate_scan [OF assms] scan_first_entry [of pre v post]
    by (cases v) simp_all
next
  fix t
  show "template_APIVersion t = ''cbi.containerbuilding.github.io/v1alpha1''"
    by (simp add: template_APIVersion_def SchemeGroupVersion_def)
qed

text \<open>
  The four cases on concrete templates.
\<close>

theorem GetBuildJobTemplate_version_check_witness:
  "GetBuildJobTemplate yaml_env_ok template_no_version = (Some \<lparr>bj = empty_BuildJob\<rparr>, None)
   \<and> GetBuildJobTemplate yaml_env_ok
         (template_version_of (YString ''cbi.containerbuilding.github.io/v1alpha1''))
       = (Some \<lparr>bj = empty_BuildJob\<rparr>, None)
   \<and> GetBuildJobTemplate yaml_env_ok
         (template_version_of (YString ''cbi.containerbuilding.github.io/v1beta1''))
       = (None, Some (ErrExpectedVersion ''cbi.containerbuilding.github.io/v1alpha1''
                        ''cbi.containerbuilding.github.io/v1beta1''))
   \<and> GetBuildJobTemplate yaml_env_ok (template_version_of (YInt 1))
       = (None, Some ErrNonStringAPIVersion)"
proof -
  have m: "yaml_Marshal yaml_env_ok (BuildJobTemplate p) = (''yaml'', None)" for p
    by (simp add: yaml_env_ok_def)
  have u: "yaml_UnmarshalStrict yaml_env_ok ''yaml'' = (empty_BuildJob, None)"
    by (simp add: yaml_env_ok_def)
  have split: "BuildJobTemplate (template_version_of v)
                 = [(YString ''kind'', YString ''BuildJob'')] @ (YString ''apiVersion'', v) # []
               \<and> (\<forall>w. (YString ''apiVersion'', w) \<notin> set [(YString ''kind'', YString ''BuildJob'')])"
    for v
    by (simp add: template_version_of_def)
  have none: "\<forall>v. (YString ''apiVersion'', v) \<notin> set (BuildJobTemplate template_no_version)"
    by (simp add: template_no_version_def)
  note whole = GetBuildJobTemplate_version_check [OF m]
  have a: "GetBuildJobTemplate yaml_env_ok template_no_version = (Some \<lparr>bj = empty_BuildJob\<rparr>, None)"
    using whole [of template_no_version, THEN conjunct1, THEN mp, OF none] u by blast
  note first = whole [THEN conjunct2, THEN conjunct1, THEN spec, THEN spec, THEN spec, THEN mp,
      OF split]
  have b: "GetBuildJobTemplate yaml_env_ok
             (template_version_of (YString ''cbi.containerbuilding.github.io/v1alpha1''))
           = (Some \<lparr>bj = empty_BuildJob\<rparr>, None)"
    using first [of "YString ''cbi.containerbuilding.github.io/v1alpha1''", THEN conjunct1] u
    by blast
  have c: "GetBuildJobTemplate yaml_env_ok
             (template_version_of (YString ''cbi.containerbuilding.github.io/v1beta1''))
           = (None, Some (ErrExpectedVersion ''cbi.containerbuilding.github.io/v1alpha1''
                            ''cbi.containerbuilding.github.io/v1beta1''))"
    using first [of "YString ''cbi.containerbuilding.github.io/v1beta1''",
        THEN conjunct2, THEN conjunct1, THEN spec,
        of "''cbi.containerbuilding.github.io/v1beta1''"]
    by simp
  have d: "GetBuildJobTemplate yaml_env_ok (template_version_of (YInt 1))
           = (None, Some ErrNonStringAPIVersion)"
    using first [of "YInt 1", THEN conjunct2, THEN conjunct2] by simp
  from a b c d show ?thesis by simp
qed

lemma NewTempNginx_example: "NewTempNginx 7 ''9f86d081'' ''default'' = Some example_nginx"
  by (simp add: NewTempNginx_def slice_to_def example_nginx_def Let_def fmt_d_eval)

lemma TempNginx_Delete_service_error:
  "services_Delete env (svc_Name (service x)) = Some err \<Longrightarrow>
     TempNginx_Delete env x = (Some err, [EvTempNginxDelete, EvServiceDelete (svc_Name (service x))])"
  by (simp add: TempNginx_Delete_def)

lemma TempNginx_Delete_order:
  "services_Delete env (svc_Name (service x)) = None \<Longrightarrow>
     TempNginx_Delete env x =
       (pods_Delete env (pod_Name (pod x)),
        [EvTempNginxDelete, EvServiceDelete (svc_Name (service x)), EvPodDelete (pod_Name (pod x))])"
  by (simp add: TempNginx_Delete_def split: option.splits)

subsection \<open>The two polls\<close>

lemma after_calls_shift: "after_calls fn (snd (fn s)) k = after_calls fn s (Suc k)"
  by (induction k) simp_all

lemma WaitFor_error: "fst (fn s) = (ok, Some err) \<Longrightarrow> WaitFor n fn s = (Some err, snd (fn s))"
  by (cases n; cases "fn s"; cases ok) auto

lemma WaitFor_done: "fst (fn s) = (True, None) \<Longrightarrow> WaitFor n fn s = (None, snd (fn s))"
  by (cases n; cases "fn s") auto

lemma WaitFor_again:
  "fst (fn s) = (False, None) \<Longrightarrow> WaitFor (Suc n) fn s = WaitFor n fn (snd (fn s))"
  by (cases "fn s") auto

lemma WaitFor_timeout:
  "fst (fn s) = (False, None) \<Longrightarrow> WaitFor 0 fn s = (Some ErrWaitTimeout, snd (fn s))"
  by (cases "fn s") auto

declare WaitFor.simps [simp del]

lemma WaitFor_skip:
  "\<forall>j<k. fst (fn (after_calls fn s j)) = (False, None) \<Longrightarrow> k \<le> n \<Longrightarrow>
     WaitFor n fn s = WaitFor (n - k) fn (after_calls fn s k)"
proof (induction k arbitrary: s n)
  case 0
  show ?case by simp
next
  case (Suc k)
  from Suc.prems(2) obtain m where n: "n = Suc m" and km: "k \<le> m" by (cases n) auto
  from Suc.prems(1) have first: "fst (fn s) = (False, None)" by force
  have rest: "\<forall>j<k. fst (fn (after_calls fn (snd (fn s)) j)) = (False, None)"
  proof (intro allI impI)
    fix j assume "j < k"
    then have "Suc j < Suc k" by simp
    with Suc.prems(1) have "fst (fn (after_calls fn s (Suc j))) = (False, None)" by blast
    then show "fst (fn (after_calls fn (snd (fn s)) j)) = (False, None)"
      by (simp only: after_calls_shift)
  qed
  have "WaitFor n fn s = WaitFor m fn (snd (fn s))"
    using first n by (simp only: WaitFor_again)
  also have "\<dots> = WaitFor (m - k) fn (after_calls fn (snd (fn s)) k)"
    using Suc.IH [OF rest km] .
  also have "\<dots> = WaitFor (n - Suc k) fn (after_calls fn s (Suc k))"
    using n by (simp only: after_calls_shift diff_Suc_Suc)
  finally show ?case .
qed

lemma WaitFor_resolves_error:
  assumes "\<forall>j<k. fst (fn (after_calls fn s j)) = (False, None)" and "k \<le> n"
    and "fst (fn (after_calls fn s k)) = (ok, Some err)"
  shows "WaitFor n fn s = (Some err, after_calls fn s (Suc k))"
  using WaitFor_skip [OF assms(1,2)] WaitFor_error [of fn "after_calls fn s k" ok err "n - k"]
    assms(3) by simp

lemma WaitFor_resolves_done:
  assumes "\<forall>j<k. fst (fn (after_calls fn s j)) = (False, None)" and "k \<le> n"
    and "fst (fn (after_calls fn s k)) = (True, None)"
  shows "WaitFor n fn s = (None, after_calls fn s (Suc k))"
  using WaitFor_skip [OF assms(1,2)] WaitFor_done [of fn "after_calls fn s k" "n - k"]
    assms(3) by simp

lemma WaitFor_resolves_timeout:
  assumes "\<forall>j\<le>n. fst (fn (after_calls fn s j)) = (False, None)"
  shows "WaitFor n fn s = (Some ErrWaitTimeout, after_calls fn s (Suc n))"
proof -
  have "\<forall>j<n. fst (fn (after_calls fn s j)) = (False, None)" using assms by simp
  from WaitFor_skip [OF this order_refl]
  have "WaitFor n fn s = WaitFor 0 fn (after_calls fn s n)" by simp
  moreover have "fst (fn (after_calls fn s n)) = (False, None)" using assms by simp
  ultimately show ?thesis by (simp add: WaitFor_timeout)
qed

lemma WaitFor_nil_only_when_done:
  "fst (WaitFor n fn s) = None \<Longrightarrow>
     \<exists>k\<le>n. (\<forall>j<k. fst (fn (after_calls fn s j)) = (False, None))
            \<and> fst (fn (after_calls fn s k)) = (True, None)"
proof (induction n arbitrary: s)
  case 0
  then have "fst (fn s) = (True, None)"
    by (cases "fn s") (auto simp: WaitFor.simps split: option.splits bool.splits)
  then show ?case by simp
next
  case (Suc n)
  show ?case
  proof (cases "fst (fn s) = (False, None)")
    case True
    with Suc.prems have "fst (WaitFor n fn (snd (fn s))) = None"
      by (simp add: WaitFor_again)
    from Suc.IH [OF this] obtain k where k: "k \<le> n"
      and before: "\<forall>j<k. fst (fn (after_calls fn (snd (fn s)) j)) = (False, None)"
      and at: "fst (fn (after_calls fn (snd (fn s)) k)) = (True, None)" by blast
    have "\<forall>j<Suc k. fst (fn (after_calls fn s j)) = (False, None)"
    proof (intro allI impI)
      fix j assume j: "j < Suc k"
      show "fst (fn (after_calls fn s j)) = (False, None)"
      proof (cases j)
        case 0
        with True show ?thesis by simp
      next
        case (Suc i)
        with j have "i < k" by simp
        with before have "fst (fn (after_calls fn (snd (fn s)) i)) = (False, None)" by blast
        then show ?thesis using Suc by (simp only: after_calls_shift)
      qed
    qed
    moreover have "fst (fn (after_calls fn s (Suc k))) = (True, None)"
      using at by (simp only: after_calls_shift)
    ultimately show ?thesis using k by (intro exI [of _ "Suc k"]) simp
  next
    case False
    with Suc.prems have "fst (fn s) = (True, None)"
      by (cases "fn s") (auto simp: WaitFor.simps split: option.splits bool.splits)
    then show ?thesis by (intro exI [of _ 0]) simp
  qed
qed

lemma WaitFor_calls:
  "\<exists>k. k \<le> n \<and> snd (WaitFor n fn s) = after_calls fn s (Suc k)"
proof (induction n arbitrary: s)
  case 0
  show ?case by (cases "fn s") (auto simp: WaitFor.simps split: option.splits bool.splits)
next
  case (Suc n)
  show ?case
  proof (cases "fst (fn s) = (False, None)")
    case True
    from Suc.IH [of "snd (fn s)"] obtain k where "k \<le> n"
      and "snd (WaitFor n fn (snd (fn s))) = after_calls fn (snd (fn s)) (Suc k)" by blast
    then have "Suc k \<le> Suc n \<and> snd (WaitFor (Suc n) fn s) = after_calls fn s (Suc (Suc k))"
      using True by (simp only: WaitFor_again after_calls_shift) simp
    then show ?thesis by blast
  next
    case False
    then have "snd (WaitFor (Suc n) fn s) = after_calls fn s (Suc 0)"
      by (cases "fn s") (auto simp: WaitFor.simps split: option.splits bool.splits)
    then show ?thesis by (intro exI [of _ 0]) simp
  qed
qed

lemma PollImmediate_WaitFor:
  "PollImmediate interval timeout delivered fn s
     = WaitFor (Suc (poller_ticks interval timeout delivered)) fn s"
  by (simp add: PollImmediate_def WaitFor.simps)

lemma completion_ticks_bound:
  "poller_ticks (Millisecond * 500) (Minute * 60) d = min d 7200"
  by (simp add: poller_ticks_def Millisecond_def Minute_def Second_def)

lemma ready_ticks_bound:
  "poller_ticks (Millisecond * 500) (Minute * 3) d = min d 360"
  by (simp add: poller_ticks_def Millisecond_def Minute_def Second_def)

lemma completion_condition_snd: "snd (completion_condition env n k) = Suc k"
  by (simp add: completion_condition_def split: prod.splits option.splits)

lemma completion_after_calls: "after_calls (completion_condition env n) 0 k = k"
  by (induction k) (simp_all add: completion_condition_snd)

lemma completion_condition_fst:
  "fst (completion_condition env n k) =
     (case jobs_Get env k n of
        (job, Some err) \<Rightarrow> (False, Some (ErrNotFound n))
      | (job, None) \<Rightarrow>
          (if CompletionTime (job_Status job) = None then (False, None)
           else if Failed (job_Status job) = 0 then (True, None)
           else (True, Some (ErrJobFailed (job_Status job)))))"
  by (cases "jobs_Get env k n") (auto simp: completion_condition_def split: option.splits)

lemma completion_pending_iff:
  "fst (completion_condition env n k) = (False, None) \<longleftrightarrow> job_pending env n k"
  by (cases "jobs_Get env k n")
     (auto simp: completion_condition_fst job_pending_def split: option.splits)

lemma waitJobCompletion_WaitFor:
  "waitJobCompletion env n
     = WaitFor (Suc (min (completion_ticks env) 7200)) (completion_condition env n) 0"
  by (simp only: waitJobCompletion_def PollImmediate_WaitFor completion_ticks_bound)

text \<open>
  Claim C5.  Let the Gets before the \<open>k\<close>-th find the job without completion time, with
  \<open>k\<close> within the number of checks that fit under the ceiling.  If the \<open>k\<close>-th Get
  finds a completion time, the poll ends there: with a nil error when the failure count
  is zero, and otherwise with the error that holds the status fetched.  If no Get within
  the ceiling finds a completion time the poll ends with the timeout error.  The poll
  returns nil only when some Get found a completion time and no failure.  Sixty minutes
  of ticks 500 ms apart are 7200 ticks, so the poll makes at most 7202 Gets.
\<close>

theorem waitJobCompletion_resolution:
  "(\<forall>k job. (\<forall>j<k. job_pending env jobName j)
        \<and> k \<le> Suc (min (completion_ticks env) 7200)
        \<and> jobs_Get env k jobName = (job, None)
        \<and> CompletionTime (job_Status job) \<noteq> None \<longrightarrow>
          (Failed (job_Status job) = 0 \<longrightarrow> waitJobCompletion env jobName = (None, Suc k))
        \<and> (Failed (job_Status job) \<noteq> 0 \<longrightarrow>
              waitJobCompletion env jobName = (Some (ErrJobFailed (job_Status job)), Suc k)))
   \<and> ((\<forall>j \<le> Suc (min (completion_ticks env) 7200). job_pending env jobName j) \<longrightarrow>
         waitJobCompletion env jobName
           = (Some ErrWaitTimeout, min (completion_ticks env) 7200 + 2))
   \<and> (fst (waitJobCompletion env jobName) = None \<longrightarrow>
         (\<exists>k job. k \<le> Suc (min (completion_ticks env) 7200)
            \<and> (\<forall>j<k. job_pending env jobName j)
            \<and> jobs_Get env k jobName = (job, None)
            \<and> CompletionTime (job_Status job) \<noteq> None
            \<and> Failed (job_Status job) = 0))
   \<and> snd (waitJobCompletion env jobName) \<le> 7202
   \<and> Minute * 60 div (Millisecond * 500) = 7200"
proof (intro conjI allI impI)
  let ?fn = "completion_condition env jobName"
  let ?M = "Suc (min (completion_ticks env) 7200)"
  {
    fix k job
    assume h: "(\<forall>j<k. job_pending env jobName j) \<and> k \<le> ?M
        \<and> jobs_Get env k jobName = (job, None) \<and> CompletionTime (job_Status job) \<noteq> None"
    then have before: "\<forall>j<k. fst (?fn (after_calls ?fn 0 j)) = (False, None)"
      by (simp add: completion_after_calls completion_pending_iff)
    from h have k: "k \<le> ?M" by simp
    {
      assume "Failed (job_Status job) = 0"
      with h have "fst (?fn (after_calls ?fn 0 k)) = (True, None)"
        by (auto simp: completion_after_calls completion_condition_fst)
      from WaitFor_resolves_done [OF before k this]
      show "waitJobCompletion env jobName = (None, Suc k)"
        by (simp add: waitJobCompletion_WaitFor completion_condition_snd completion_after_calls)
    }
    {
      assume "Failed (job_Status job) \<noteq> 0"
      with h have "fst (?fn (after_calls ?fn 0 k)) = (True, Some (ErrJobFailed (job_Status job)))"
        by (auto simp: completion_after_calls completion_condition_fst)
      from WaitFor_resolves_error [OF before k this]
      show "waitJobCompletion env jobName = (Some (ErrJobFailed (job_Status job)), Suc k)"
        by (simp add: waitJobCompletion_WaitFor completion_condition_snd completion_after_calls)
    }
  }
  {
    assume "\<forall>j \<le> ?M. job_pending env jobName j"
    then have "\<forall>j \<le> ?M. fst (?fn (after_calls ?fn 0 j)) = (False, None)"
      by (simp add: completion_after_calls completion_pending_iff)
    from WaitFor_resolves_timeout [OF this]
    show "waitJobCompletion env jobName = (Some ErrWaitTimeout, min (completion_ticks env) 7200 + 2)"
      by (simp add: waitJobCompletion_WaitFor completion_condition_snd completion_after_calls)
  }
  {
    assume "fst (waitJobCompletion env jobName) = None"
    then have "fst (WaitFor ?M ?fn 0) = None" by (simp only: waitJobCompletion_WaitFor)
    from WaitFor_nil_only_when_done [OF this] obtain k where k: "k \<le> ?M"
      and before: "\<forall>j<k. fst (?fn (after_calls ?fn 0 j)) = (False, None)"
      and at: "fst (?fn (after_calls ?fn 0 k)) = (True, None)" by blast
    obtain job e where g: "jobs_Get env k jobName = (job, e)" by (cases "jobs_Get env k jobName")
    from at g have "e = None \<and> CompletionTime (job_Status job) \<noteq> None \<and> Failed (job_Status job) = 0"
      by (auto simp: completion_after_calls completion_condition_fst split: option.splits if_splits)
    moreover from before have "\<forall>j<k. job_pending env jobName j"
      by (simp add: completion_after_calls completion_pending_iff)
    ultimately show "\<exists>k job. k \<le> ?M \<and> (\<forall>j<k. job_pending env jobName j)
            \<and> jobs_Get env k jobName = (job, None)
            \<and> CompletionTime (job_Status job) \<noteq> None \<and> Failed (job_Status job) = 0"
      using k g by blast
  }
  {
    from WaitFor_calls [of ?M ?fn 0] obtain k where "k \<le> ?M"
      and "snd (WaitFor ?M ?fn 0) = after_calls ?fn 0 (Suc k)" by blast
    then show "snd (waitJobCompletion env jobName) \<le> 7202"
      by (simp add: waitJobCompletion_WaitFor completion_after_calls completion_condition_snd)
  }
  show "Minute * 60 div (Millisecond * 500) = 7200"
    by (simp add: Millisecond_def Minute_def Second_def)
qed

text \<open>
  Completion with no failure at the fourth Get, completion with two failures at the
  first, and a job that never completes under a poller of five ticks.
\<close>

theorem waitJobCompletion_resolution_witness:
  "waitJobCompletion happy_env ''job-1'' = (None, 4)
   \<and> waitJobCompletion (happy_env\<lparr>jobs_Get := (\<lambda>k n. (finished_job 2, None))\<rparr>) ''job-1''
       = (Some (ErrJobFailed \<lparr>CompletionTime = Some 1530000060, Failed = 2, js_Rest = []\<rparr>), 1)
   \<and> waitJobCompletion
         (happy_env\<lparr>jobs_Get := (\<lambda>k n. (pending_job, None)), completion_ticks := 5\<rparr>) ''job-1''
       = (Some ErrWaitTimeout, 7)"
proof -
  let ?failing = "happy_env\<lparr>jobs_Get := (\<lambda>k n. (finished_job 2, None))\<rparr>"
  let ?stuck = "happy_env\<lparr>jobs_Get := (\<lambda>k n. (pending_job, None)), completion_ticks := 5\<rparr>"
  have p1: "(\<forall>j<3. job_pending happy_env ''job-1'' j)
        \<and> 3 \<le> Suc (min (completion_ticks happy_env) 7200)
        \<and> jobs_Get happy_env 3 ''job-1'' = (finished_job 0, None)
        \<and> CompletionTime (job_Status (finished_job 0)) \<noteq> None"
    by (simp add: happy_env_def job_pending_def pending_job_def finished_job_def)
  have a: "waitJobCompletion happy_env ''job-1'' = (None, 4)"
    using waitJobCompletion_resolution [of happy_env "''job-1''", THEN conjunct1, rule_format, OF p1]
    by (simp add: finished_job_def)
  have p2: "(\<forall>j<0. job_pending ?failing ''job-1'' j)
        \<and> 0 \<le> Suc (min (completion_ticks ?failing) 7200)
        \<and> jobs_Get ?failing 0 ''job-1'' = (finished_job 2, None)
        \<and> CompletionTime (job_Status (finished_job 2)) \<noteq> None"
    by (simp add: finished_job_def)
  have b: "waitJobCompletion ?failing ''job-1''
       = (Some (ErrJobFailed \<lparr>CompletionTime = Some 1530000060, Failed = 2, js_Rest = []\<rparr>), 1)"
    using waitJobCompletion_resolution [of ?failing "''job-1''", THEN conjunct1, rule_format, OF p2]
    by (simp add: finished_job_def)
  have p3: "\<forall>j \<le> Suc (min (completion_ticks ?stuck) 7200). job_pending ?stuck ''job-1'' j"
    by (simp add: job_pending_def pending_job_def)
  have c: "waitJobCompletion ?stuck ''job-1'' = (Some ErrWaitTimeout, 7)"
    using waitJobCompletion_resolution [of ?stuck "''job-1''", THEN conjunct2, THEN conjunct1,
        THEN mp, OF p3]
    by simp
  from a b c show ?thesis by simp
qed

lemma ready_condition_snd:
  "snd (ready_condition env (b, asked))
     = (fst (buildjobs_Get env (length asked) (Name (ObjectMeta b))), asked @ [Name (ObjectMeta b)])"
  by (cases "buildjobs_Get env (length asked) (Name (ObjectMeta b))")
     (auto simp: ready_condition_def split: option.splits)

lemma ready_condition_fst:
  "fst (ready_condition env (b, asked))
     = (case buildjobs_Get env (length asked) (Name (ObjectMeta b)) of
          (b', Some err) \<Rightarrow> (False, Some (ErrNotFound (Name (ObjectMeta b'))))
        | (b', None) \<Rightarrow> (Job (Status b') \<noteq> '''', None))"
  by (cases "buildjobs_Get env (length asked) (Name (ObjectMeta b))")
     (auto simp: ready_condition_def split: option.splits)

lemma ready_asked_length:
  "length (snd (after_calls (ready_condition env) (b, []) k)) = k"
proof (induction k)
  case 0
  show ?case by simp
next
  case (Suc k)
  obtain b' asked where st: "after_calls (ready_condition env) (b, []) k = (b', asked)"
    by (cases "after_calls (ready_condition env) (b, []) k")
  with Suc show ?case by (simp add: ready_condition_snd)
qed

lemma ready_after_Suc:
  "after_calls (ready_condition env) (b, []) (Suc k)
     = (fst (fetched env b k),
        snd (after_calls (ready_condition env) (b, []) k)
          @ [Name (ObjectMeta (fst (after_calls (ready_condition env) (b, []) k)))])"
proof -
  obtain b' asked where st: "after_calls (ready_condition env) (b, []) k = (b', asked)"
    by (cases "after_calls (ready_condition env) (b, []) k")
  moreover from st have "length asked = k" using ready_asked_length [of env b k] by simp
  ultimately show ?thesis by (simp add: ready_condition_snd fetched_def)
qed

lemma ready_decision:
  "fst (ready_condition env (after_calls (ready_condition env) (b, []) k))
     = (case fetched env b k of
          (b', Some err) \<Rightarrow> (False, Some (ErrNotFound (Name (ObjectMeta b'))))
        | (b', None) \<Rightarrow> (Job (Status b') \<noteq> '''', None))"
proof -
  obtain b' asked where st: "after_calls (ready_condition env) (b, []) k = (b', asked)"
    by (cases "after_calls (ready_condition env) (b, []) k")
  moreover from st have "length asked = k" using ready_asked_length [of env b k] by simp
  ultimately show ?thesis by (simp add: ready_condition_fst fetched_def)
qed

lemma ready_pending_iff:
  "fst (ready_condition env (after_calls (ready_condition env) (b, []) k)) = (False, None)
     \<longleftrightarrow> ready_pending env b k"
  by (cases "fetched env b k") (auto simp: ready_decision ready_pending_def split: option.splits)

lemma waitBuildJobReady_WaitFor:
  "waitBuildJobReady env b
     = WaitFor (Suc (min (ready_ticks env) 360)) (ready_condition env) (b, [])"
  by (simp only: waitBuildJobReady_def PollImmediate_WaitFor ready_ticks_bound)

lemma runCBIBuildV1Alpha1_created_wErr:
  "waitBuildJobReady env b = (Some wErr, b', asked) \<Longrightarrow>
     runCBIBuildV1Alpha1_created env kubeNS b
       = (Some wErr, EvLog ''waiting buildjob %s to be ready'' [Name (ObjectMeta b)]
                       # map EvBuildJobGet asked)"
  by (simp add: runCBIBuildV1Alpha1_created_def)

lemma runCBIBuildV1Alpha1_created_ready:
  "waitBuildJobReady env b = (None, b2, asked) \<Longrightarrow>
     runCBIBuildV1Alpha1_created env kubeNS b
       = (case cmd_Start env (cmdFollowJobLog kubeNS (Job (Status b2))) of
            Some err \<Rightarrow>
              (Some err,
               [EvLog ''waiting buildjob %s to be ready'' [Name (ObjectMeta b)]]
                 @ map EvBuildJobGet asked
                 @ [EvLog ''CBI BuildJob: %q, batchv1 Job: %q'' [Name (ObjectMeta b2), Job (Status b2)],
                    EvSleep (10 * Second),
                    EvCmdStart (cmdFollowJobLog kubeNS (Job (Status b2)))])
          | None \<Rightarrow>
              (fst (waitJobCompletion env (Job (Status b2))),
               [EvLog ''waiting buildjob %s to be ready'' [Name (ObjectMeta b)]]
                 @ map EvBuildJobGet asked
                 @ [EvLog ''CBI BuildJob: %q, batchv1 Job: %q'' [Name (ObjectMeta b2), Job (Status b2)],
                    EvSleep (10 * Second),
                    EvCmdStart (cmdFollowJobLog kubeNS (Job (Status b2)))]
                 @ replicate (snd (waitJobCompletion env (Job (Status b2)))) (EvJobGet (Job (Status b2)))
                 @ [EvProcessKill]))"
  by (simp add: runCBIBuildV1Alpha1_created_def waitJobPodReady_def
      split: option.splits prod.splits)

lemma runCBIBuildV1Alpha1_after_Create:
  "buildjobs_Create env b0 = (b, None) \<Longrightarrow>
     runCBIBuildV1Alpha1 env kubeNS b0
       = (fst (runCBIBuildV1Alpha1_created env kubeNS b),
          [EvLog ''creating buildjob %s'' [Name (ObjectMeta b0)],
           EvBuildJobCreate (Name (ObjectMeta b0))]
            @ snd (runCBIBuildV1Alpha1_created env kubeNS b)
            @ [EvBuildJobDelete (Name (ObjectMeta b))])"
  by (simp add: runCBIBuildV1Alpha1_def split: prod.splits)

lemma runCBIBuildV1Alpha1_ready:
  assumes "buildjobs_Create env b0 = (b, None)"
    and "waitBuildJobReady env b = (None, b2, asked)"
  shows "runCBIBuildV1Alpha1 env kubeNS b0
       = (case cmd_Start env (cmdFollowJobLog kubeNS (Job (Status b2))) of
            Some err \<Rightarrow>
              (Some err,
               [EvLog ''creating buildjob %s'' [Name (ObjectMeta b0)],
                EvBuildJobCreate (Name (ObjectMeta b0)),
                EvLog ''waiting buildjob %s to be ready'' [Name (ObjectMeta b)]]
                 @ map EvBuildJobGet asked
                 @ [EvLog ''CBI BuildJob: %q, batchv1 Job: %q'' [Name (ObjectMeta b2), Job (Status b2)],
                    EvSleep (10 * Second),
                    EvCmdStart (cmdFollowJobLog kubeNS (Job (Status b2))),
                    EvBuildJobDelete (Name (ObjectMeta b))])
          | None \<Rightarrow>
              (fst (waitJobCompletion env (Job (Status b2))),
               [EvLog ''creating buildjob %s'' [Name (ObjectMeta b0)],
                EvBuildJobCreate (Name (ObjectMeta b0)),
                EvLog ''waiting buildjob %s to be ready'' [Name (ObjectMeta b)]]
                 @ map EvBuildJobGet asked
                 @ [EvLog ''CBI BuildJob: %q, batchv1 Job: %q'' [Name (ObjectMeta b2), Job (Status b2)],
                    EvSleep (10 * Second),
                    EvCmdStart (cmdFollowJobLog kubeNS (Job (Status b2)))]
                 @ replicate (snd (waitJobCompletion env (Job (Status b2)))) (EvJobGet (Job (Status b2)))
                 @ [EvProcessKill, EvBuildJobDelete (Name (ObjectMeta b))]))"
  by (simp add: runCBIBuildV1Alpha1_after_Create [OF assms(1)]
      runCBIBuildV1Alpha1_created_ready [OF assms(2)] split: option.splits)

lemma runCBIBuildV1Alpha1_wErr:
  assumes "buildjobs_Create env b0 = (b, None)"
    and "waitBuildJobReady env b = (Some wErr, b2, asked)"
  shows "runCBIBuildV1Alpha1 env kubeNS b0
       = (Some wErr,
          [EvLog ''creating buildjob %s'' [Name (ObjectMeta b0)],
           EvBuildJobCreate (Name (ObjectMeta b0)),
           EvLog ''waiting buildjob %s to be ready'' [Name (ObjectMeta b)]]
            @ map EvBuildJobGet asked
            @ [EvBuildJobDelete (Name (ObjectMeta b))])"
  by (simp add: runCBIBuildV1Alpha1_after_Create [OF assms(1)]
      runCBIBuildV1Alpha1_created_wErr [OF assms(2)])

lemma ready_asked:
  "snd (after_calls (ready_condition env) (b, []) (Suc k))
     = Name (ObjectMeta b) # map (\<lambda>j. Name (ObjectMeta (fst (fetched env b j)))) [0..<k]"
proof (induction k)
  case 0
  show ?case by (simp add: ready_condition_snd)
next
  case (Suc k)
  have "snd (after_calls (ready_condition env) (b, []) (Suc (Suc k)))
          = snd (after_calls (ready_condition env) (b, []) (Suc k))
              @ [Name (ObjectMeta (fst (after_calls (ready_condition env) (b, []) (Suc k))))]"
    by (subst ready_after_Suc) simp
  also have "fst (after_calls (ready_condition env) (b, []) (Suc k)) = fst (fetched env b k)"
    by (subst ready_after_Suc) simp
  finally show ?case using Suc.IH by simp
qed

text \<open>
  Claim C6.  Let the Gets before the \<open>k\<close>-th be answered without error by a BuildJob
  that names no job, with \<open>k\<close> within the number of checks that fit under the ceiling.
  The first Get asks for the name of the BuildJob created, each later one for the name of
  the object that the Get before it returned.

  If the \<open>k\<close>-th Get returns a BuildJob that names a job, the wait ends with a nil
  error after exactly \<open>k + 1\<close> Gets and runCBIBuildV1Alpha1 goes on: it logs the two
  names, sleeps, starts the log follower for the job named and, if that started, polls
  the job for completion and returns what that poll returns.

  If the \<open>k\<close>-th Get returns an error, the wait ends with an error after exactly
  \<open>k + 1\<close> Gets, and runCBIBuildV1Alpha1 returns that error: after the Gets it only
  deletes the BuildJob.

  If every Get within the ceiling is answered by a BuildJob that names no job, the wait
  ends with the timeout error, and runCBIBuildV1Alpha1 returns the timeout error in the
  same way.  Three minutes of ticks 500 ms apart are 360 ticks, so the wait makes at most
  362 Gets.
\<close>

theorem runCBIBuildV1Alpha1_readiness:
  "(\<forall>k. (\<forall>j<k. ready_pending env b j) \<and> k \<le> Suc (min (ready_ticks env) 360) \<longrightarrow>
       (snd (fetched env b k) = None \<and> Job (Status (fst (fetched env b k))) \<noteq> '''' \<longrightarrow>
          (\<exists>b' asked. waitBuildJobReady env b = (None, b', asked)
             \<and> b' = fst (fetched env b k)
             \<and> length asked = Suc k
             \<and> asked = Name (ObjectMeta b)
                         # map (\<lambda>j. Name (ObjectMeta (fst (fetched env b j)))) [0..<k]
             \<and> (\<forall>b0. buildjobs_Create env b0 = (b, None) \<longrightarrow>
                  runCBIBuildV1Alpha1 env kubeNS b0
                    = (case cmd_Start env (cmdFollowJobLog kubeNS (Job (Status b'))) of
                         Some err \<Rightarrow>
                           (Some err,
                            [EvLog ''creating buildjob %s'' [Name (ObjectMeta b0)],
                             EvBuildJobCreate (Name (ObjectMeta b0)),
                             EvLog ''waiting buildjob %s to be ready'' [Name (ObjectMeta b)]]
                              @ map EvBuildJobGet asked
                              @ [EvLog ''CBI BuildJob: %q, batchv1 Job: %q''
                                   [Name (ObjectMeta b'), Job (Status b')],
                                 EvSleep (10 * Second),
                                 EvCmdStart (cmdFollowJobLog kubeNS (Job (Status b'))),
                                 EvBuildJobDelete (Name (ObjectMeta b))])
                       | None \<Rightarrow>
                           (fst (waitJobCompletion env (Job (Status b'))),
                            [EvLog ''creating buildjob %s'' [Name (ObjectMeta b0)],
                             EvBuildJobCreate (Name (ObjectMeta b0)),
                             EvLog ''waiting buildjob %s to be ready'' [Name (ObjectMeta b)]]
                              @ map EvBuildJobGet asked
                              @ [EvLog ''CBI BuildJob: %q, batchv1 Job: %q''
                                   [Name (ObjectMeta b'), Job (Status b')],
                                 EvSleep (10 * Second),
                                 EvCmdStart (cmdFollowJobLog kubeNS (Job (Status b')))]
                              @ replicate (snd (waitJobCompletion env (Job (Status b'))))
                                  (EvJobGet (Job (Status b')))
                              @ [EvProcessKill, EvBuildJobDelete (Name (ObjectMeta b))])))))
     \<and> (\<forall>err. snd (fetched env b k) = Some err \<longrightarrow>
          (\<exists>asked. waitBuildJobReady env b
                      = (Some (ErrNotFound (Name (ObjectMeta (fst (fetched env b k))))),
                         fst (fetched env b k), asked)
             \<and> length asked = Suc k
             \<and> asked = Name (ObjectMeta b)
                         # map (\<lambda>j. Name (ObjectMeta (fst (fetched env b j)))) [0..<k]
             \<and> runCBIBuildV1Alpha1_created env kubeNS b
                 = (Some (ErrNotFound (Name (ObjectMeta (fst (fetched env b k))))),
                    EvLog ''waiting buildjob %s to be ready'' [Name (ObjectMeta b)]
                      # map EvBuildJobGet asked)
             \<and> (\<forall>b0. buildjobs_Create env b0 = (b, None) \<longrightarrow>
                  runCBIBuildV1Alpha1 env kubeNS b0
                    = (Some (ErrNotFound (Name (ObjectMeta (fst (fetched env b k))))),
                       [EvLog ''creating buildjob %s'' [Name (ObjectMeta b0)],
                        EvBuildJobCreate (Name (ObjectMeta b0)),
                        EvLog ''waiting buildjob %s to be ready'' [Name (ObjectMeta b)]]
                         @ map EvBuildJobGet asked
                         @ [EvBuildJobDelete (Name (ObjectMeta b))])))))
   \<and> ((\<forall>j \<le> Suc (min (ready_ticks env) 360). ready_pending env b j) \<longrightarrow>
         (\<exists>b' asked. waitBuildJobReady env b = (Some ErrWaitTimeout, b', asked)
            \<and> length asked = min (ready_ticks env) 360 + 2
            \<and> asked = Name (ObjectMeta b)
                        # map (\<lambda>j. Name (ObjectMeta (fst (fetched env b j))))
                            [0..<Suc (min (ready_ticks env) 360)]
            \<and> (\<forall>b0. buildjobs_Create env b0 = (b, None) \<longrightarrow>
                 runCBIBuildV1Alpha1 env kubeNS b0
                   = (Some ErrWaitTimeout,
                      [EvLog ''creating buildjob %s'' [Name (ObjectMeta b0)],
                       EvBuildJobCreate (Name (ObjectMeta b0)),
                       EvLog ''waiting buildjob %s to be ready'' [Name (ObjectMeta b)]]
                        @ map EvBuildJobGet asked
                        @ [EvBuildJobDelete (Name (ObjectMeta b))]))))
   \<and> length (snd (snd (waitBuildJobReady env b))) \<le> 362
   \<and> Minute * 3 div (Millisecond * 500) = 360"
proof (intro conjI allI impI)
  let ?fn = "ready_condition env"
  let ?M = "Suc (min (ready_ticks env) 360)"
  let ?st = "after_calls ?fn (b, [])"
  {
    fix k
    assume h: "(\<forall>j<k. ready_pending env b j) \<and> k \<le> ?M"
    then have before: "\<forall>j<k. fst (?fn (?st j)) = (False, None)"
      by (simp add: ready_pending_iff)
    from h have k: "k \<le> ?M" by simp
    have len: "length (snd (?st (Suc k))) = Suc k"
      by (rule ready_asked_length)
    {
      assume "snd (fetched env b k) = None \<and> Job (Status (fst (fetched env b k))) \<noteq> ''''"
      then have "fst (?fn (?st k)) = (True, None)"
        by (cases "fetched env b k") (auto simp: ready_decision)
      from WaitFor_resolves_done [OF before k this]
      have w: "waitBuildJobReady env b = (None, fst (fetched env b k), snd (?st (Suc k)))"
        by (simp only: waitBuildJobReady_WaitFor ready_after_Suc snd_conv)
      show "\<exists>b' asked. waitBuildJobReady env b = (None, b', asked)
             \<and> b' = fst (fetched env b k)
             \<and> length asked = Suc k
             \<and> asked = Name (ObjectMeta b)
                         # map (\<lambda>j. Name (ObjectMeta (fst (fetched env b j)))) [0..<k]
             \<and> (\<forall>b0. buildjobs_Create env b0 = (b, None) \<longrightarrow>
                  runCBIBuildV1Alpha1 env kubeNS b0
                    = (case cmd_Start env (cmdFollowJobLog kubeNS (Job (Status b'))) of
                         Some err \<Rightarrow>
                           (Some err,
                            [EvLog ''creating buildjob %s'' [Name (ObjectMeta b0)],
                             EvBuildJobCreate (Name (ObjectMeta b0)),
                             EvLog ''waiting buildjob %s to be ready'' [Name (ObjectMeta b)]]
                              @ map EvBuildJobGet asked
                              @ [EvLog ''CBI BuildJob: %q, batchv1 Job: %q''
                                   [Name (ObjectMeta b'), Job (Status b')],
                                 EvSleep (10 * Second),
                                 EvCmdStart (cmdFollowJobLog kubeNS (Job (Status b'))),
                                 EvBuildJobDelete (Name (ObjectMeta b))])
                       | None \<Rightarrow>
                           (fst (waitJobCompletion env (Job (Status b'))),
                            [EvLog ''creating buildjob %s'' [Name (ObjectMeta b0)],
                             EvBuildJobCreate (Name (ObjectMeta b0)),
                             EvLog ''waiting buildjob %s to be ready'' [Name (ObjectMeta b)]]
                              @ map EvBuildJobGet asked
                              @ [EvLog ''CBI BuildJob: %q, batchv1 Job: %q''
                                   [Name (ObjectMeta b'), Job (Status b')],
                                 EvSleep (10 * Second),
                                 EvCmdStart (cmdFollowJobLog kubeNS (Job (Status b')))]
                              @ replicate (snd (waitJobCompletion env (Job (Status b'))))
                                  (EvJobGet (Job (Status b')))
                              @ [EvProcessKill, EvBuildJobDelete (Name (ObjectMeta b))])))"
        apply (rule exI [of _ "fst (fetched env b k)"], rule exI [of _ "snd (?st (Suc k))"])
        apply (intro conjI allI impI w refl len ready_asked)
        apply (erule runCBIBuildV1Alpha1_ready [OF _ w])
        done
    }
    {
      fix err
      assume "snd (fetched env b k) = Some err"
      then have "fst (?fn (?st k))
                   = (False, Some (ErrNotFound (Name (ObjectMeta (fst (fetched env b k))))))"
        by (cases "fetched env b k") (auto simp: ready_decision)
      from WaitFor_resolves_error [OF before k this]
      have w: "waitBuildJobReady env b
             = (Some (ErrNotFound (Name (ObjectMeta (fst (fetched env b k))))),
                fst (fetched env b k), snd (?st (Suc k)))"
        by (simp only: waitBuildJobReady_WaitFor ready_after_Suc snd_conv)
      show "\<exists>asked. waitBuildJobReady env b
                      = (Some (ErrNotFound (Name (ObjectMeta (fst (fetched env b k))))),
                         fst (fetched env b k), asked)
             \<and> length asked = Suc k
             \<and> asked = Name (ObjectMeta b)
                         # map (\<lambda>j. Name (ObjectMeta (fst (fetched env b j)))) [0..<k]
             \<and> runCBIBuildV1Alpha1_created env kubeNS b
                 = (Some (ErrNotFound (Name (ObjectMeta (fst (fetched env b k))))),
                    EvLog ''waiting buildjob %s to be ready'' [Name (ObjectMeta b)]
                      # map EvBuildJobGet asked)
             \<and> (\<forall>b0. buildjobs_Create env b0 = (b, None) \<longrightarrow>
                  runCBIBuildV1Alpha1 env kubeNS b0
                    = (Some (ErrNotFound (Name (ObjectMeta (fst (fetched env b k))))),
                       [EvLog ''creating buildjob %s'' [Name (ObjectMeta b0)],
                        EvBuildJobCreate (Name (ObjectMeta b0)),
                        EvLog ''waiting buildjob %s to be ready'' [Name (ObjectMeta b)]]
                         @ map EvBuildJobGet asked
                         @ [EvBuildJobDelete (Name (ObjectMeta b))]))"
        apply (rule exI [of _ "snd (?st (Suc k))"])
        apply (intro conjI allI impI w len ready_asked runCBIBuildV1Alpha1_created_wErr [OF w])
        apply (erule runCBIBuildV1Alpha1_wErr [OF _ w])
        done
    }
  }
  {
    assume "\<forall>j \<le> ?M. ready_pending env b j"
    then have "\<forall>j \<le> ?M. fst (?fn (?st j)) = (False, None)"
      by (simp add: ready_pending_iff)
    from WaitFor_resolves_timeout [OF this]
    have "waitBuildJobReady env b = (Some ErrWaitTimeout, ?st (Suc ?M))"
      by (simp only: waitBuildJobReady_WaitFor)
    then have w: "waitBuildJobReady env b
                 = (Some ErrWaitTimeout, fst (?st (Suc ?M)), snd (?st (Suc ?M)))"
      by simp
    have len: "length (snd (?st (Suc ?M))) = min (ready_ticks env) 360 + 2"
      using ready_asked_length [of env b "Suc ?M"] by simp
    show "\<exists>b' asked. waitBuildJobReady env b = (Some ErrWaitTimeout, b', asked)
            \<and> length asked = min (ready_ticks env) 360 + 2
            \<and> asked = Name (ObjectMeta b)
                        # map (\<lambda>j. Name (ObjectMeta (fst (fetched env b j))))
                            [0..<Suc (min (ready_ticks env) 360)]
            \<and> (\<forall>b0. buildjobs_Create env b0 = (b, None) \<longrightarrow>
                 runCBIBuildV1Alpha1 env kubeNS b0
                   = (Some ErrWaitTimeout,
                      [EvLog ''creating buildjob %s'' [Name (ObjectMeta b0)],
                       EvBuildJobCreate (Name (ObjectMeta b0)),
                       EvLog ''waiting buildjob %s to be ready'' [Name (ObjectMeta b)]]
                        @ map EvBuildJobGet asked
                        @ [EvBuildJobDelete (Name (ObjectMeta b))]))"
      apply (rule exI [of _ "fst (?st (Suc ?M))"], rule exI [of _ "snd (?st (Suc ?M))"])
      apply (intro conjI allI impI w len ready_asked)
      apply (erule runCBIBuildV1Alpha1_wErr [OF _ w])
      done
  }
  {
    from WaitFor_calls [of ?M ?fn "(b, [])"] obtain k where "k \<le> ?M"
      and "snd (WaitFor ?M ?fn (b, [])) = ?st (Suc k)" by blast
    then show "length (snd (snd (waitBuildJobReady env b))) \<le> 362"
      using ready_asked_length [of env b "Suc k"]
      by (simp add: waitBuildJobReady_WaitFor)
  }
  show "Minute * 3 div (Millisecond * 500) = 360"
    by (simp add: Millisecond_def Minute_def Second_def)
qed

lemma fetched_names:
  assumes "\<forall>k n. Name (ObjectMeta (fst (buildjobs_Get env k n))) = n"
  shows "Name (ObjectMeta (fst (fetched env b k))) = Name (ObjectMeta b)"
proof -
  have "Name (ObjectMeta (fst (after_calls (ready_condition env) (b, []) j))) = Name (ObjectMeta b)"
    for j
  proof (induction j)
    case 0
    show ?case by simp
  next
    case (Suc j)
    have "fst (after_calls (ready_condition env) (b, []) (Suc j)) = fst (fetched env b j)"
      by (subst ready_after_Suc) simp
    then show ?case using assms Suc.IH by (simp add: fetched_def)
  qed
  then show ?thesis using assms by (simp add: fetched_def)
qed

lemma happy_completion: "waitJobCompletion happy_env ''job-1'' = (None, 4)"
proof -
  let ?fn = "completion_condition happy_env ''job-1''"
  have before: "\<forall>j<3. fst (?fn (after_calls ?fn 0 j)) = (False, None)"
    by (simp add: completion_after_calls completion_condition_fst happy_env_def pending_job_def)
  have at: "fst (?fn (after_calls ?fn 0 3)) = (True, None)"
    by (simp add: completion_after_calls completion_condition_fst happy_env_def finished_job_def)
  have k: "3 \<le> Suc (min (completion_ticks happy_env) 7200)"
    by (simp add: happy_env_def)
  from WaitFor_resolves_done [OF before k at] show ?thesis
    by (simp add: waitJobCompletion_WaitFor completion_after_calls completion_condition_snd)
qed

text \<open>
  A BuildJob accepted at the third Get, whose job is complete at the fourth Get of the
  completion poll; an API server that refuses the first Get; and a BuildJob that is
  never accepted, under a poller of two ticks.
\<close>

theorem runCBIBuildV1Alpha1_readiness_witness:
  "waitBuildJobReady happy_env (named_BuildJob ''bj'' '''')
     = (None, named_BuildJob ''bj'' ''job-1'', [''bj'', ''bj'', ''bj''])
   \<and> runCBIBuildV1Alpha1 happy_env ''default'' (named_BuildJob ''bj'' '''')
     = (None,
        [EvLog ''creating buildjob %s'' [''bj''],
         EvBuildJobCreate ''bj'',
         EvLog ''waiting buildjob %s to be ready'' [''bj''],
         EvBuildJobGet ''bj'', EvBuildJobGet ''bj'', EvBuildJobGet ''bj'',
         EvLog ''CBI BuildJob: %q, batchv1 Job: %q'' [''bj'', ''job-1''],
         EvSleep 10000000000,
         EvCmdStart [''kubectl'', ''--namespace'', ''default'', ''logs'', ''--follow'', ''job/job-1''],
         EvJobGet ''job-1'', EvJobGet ''job-1'', EvJobGet ''job-1'', EvJobGet ''job-1'',
         EvProcessKill,
         EvBuildJobDelete ''bj''])
   \<and> runCBIBuildV1Alpha1
         (happy_env\<lparr>buildjobs_Get :=
            (\<lambda>k n. (empty_BuildJob, Some (ErrExternal ''connection refused'')))\<rparr>)
         ''default'' (named_BuildJob ''bj'' '''')
     = (Some (ErrNotFound ''''),
        [EvLog ''creating buildjob %s'' [''bj''],
         EvBuildJobCreate ''bj'',
         EvLog ''waiting buildjob %s to be ready'' [''bj''],
         EvBuildJobGet ''bj'',
         EvBuildJobDelete ''bj''])
   \<and> runCBIBuildV1Alpha1
         (happy_env\<lparr>buildjobs_Get := (\<lambda>k n. (named_BuildJob n '''', None)), ready_ticks := 2\<rparr>)
         ''default'' (named_BuildJob ''bj'' '''')
     = (Some ErrWaitTimeout,
        [EvLog ''creating buildjob %s'' [''bj''],
         EvBuildJobCreate ''bj'',
         EvLog ''waiting buildjob %s to be ready'' [''bj''],
         EvBuildJobGet ''bj'', EvBuildJobGet ''bj'', EvBuildJobGet ''bj'', EvBuildJobGet ''bj'',
         EvBuildJobDelete ''bj''])"
proof -
  let ?b = "named_BuildJob ''bj'' ''''"
  let ?down = "happy_env\<lparr>buildjobs_Get :=
                 (\<lambda>k n. (empty_BuildJob, Some (ErrExternal ''connection refused'')))\<rparr>"
  let ?stuck = "happy_env\<lparr>buildjobs_Get := (\<lambda>k n. (named_BuildJob n '''', None)),
                          ready_ticks := 2\<rparr>"
  have nbj: "Job (Status (named_BuildJob n j)) = j" "Name (ObjectMeta (named_BuildJob n j)) = n"
    for n j
    by (simp_all add: named_BuildJob_def)
  have nb: "Name (ObjectMeta ?b) = ''bj''"
    by (simp add: nbj)

  have names: "Name (ObjectMeta (fst (fetched happy_env ?b j))) = ''bj''" for j
    using fetched_names [of happy_env ?b j] nb by (simp add: happy_env_def named_BuildJob_def)
  have f: "fetched happy_env ?b j
             = (if j < 2 then named_BuildJob ''bj'' '''' else named_BuildJob ''bj'' ''job-1'', None)"
    for j
  proof -
    have "fetched happy_env ?b j
            = (if j < 2 then named_BuildJob (Name (ObjectMeta (fst (fetched happy_env ?b j)))) ''''
               else named_BuildJob (Name (ObjectMeta (fst (fetched happy_env ?b j)))) ''job-1'',
               None)"
      by (simp add: fetched_def happy_env_def named_BuildJob_def)
    then show ?thesis by (simp only: names)
  qed
  have "\<forall>j<2. ready_pending happy_env ?b j"
    by (simp add: ready_pending_def f nbj)
  moreover have "2 \<le> Suc (min (ready_ticks happy_env) 360)"
    by (simp add: happy_env_def)
  ultimately have p1: "(\<forall>j<2. ready_pending happy_env ?b j)
      \<and> 2 \<le> Suc (min (ready_ticks happy_env) 360)"
    by (rule conjI)
  have q1: "snd (fetched happy_env ?b 2) = None
            \<and> Job (Status (fst (fetched happy_env ?b 2))) \<noteq> ''''"
    by (simp add: f nbj)
  have cr1: "buildjobs_Create happy_env ?b = (?b, None)"
    by (simp add: happy_env_def)
  have st1: "cmd_Start happy_env c = None" for c
    by (simp add: happy_env_def)
  from runCBIBuildV1Alpha1_readiness [of happy_env ?b "''default''", THEN conjunct1, THEN spec,
      THEN mp, OF p1, THEN conjunct1, THEN mp, OF q1]
  obtain b' asked where w1: "waitBuildJobReady happy_env ?b = (None, b', asked)"
    and b': "b' = fst (fetched happy_env ?b 2)"
    and asked: "asked = Name (ObjectMeta ?b)
                  # map (\<lambda>j. Name (ObjectMeta (fst (fetched happy_env ?b j)))) [0..<2]"
    and run1: "\<forall>b0. buildjobs_Create happy_env b0 = (?b, None) \<longrightarrow>
                  runCBIBuildV1Alpha1 happy_env ''default'' b0
                    = (case cmd_Start happy_env (cmdFollowJobLog ''default'' (Job (Status b'))) of
                         Some err \<Rightarrow>
                           (Some err,
                            [EvLog ''creating buildjob %s'' [Name (ObjectMeta b0)],
                             EvBuildJobCreate (Name (ObjectMeta b0)),
                             EvLog ''waiting buildjob %s to be ready'' [Name (ObjectMeta ?b)]]
                              @ map EvBuildJobGet asked
                              @ [EvLog ''CBI BuildJob: %q, batchv1 Job: %q''
                                   [Name (ObjectMeta b'), Job (Status b')],
                                 EvSleep (10 * Second),
                                 EvCmdStart (cmdFollowJobLog ''default'' (Job (Status b'))),
                                 EvBuildJobDelete (Name (ObjectMeta ?b))])
                       | None \<Rightarrow>
                           (fst (waitJobCompletion happy_env (Job (Status b'))),
                            [EvLog ''creating buildjob %s'' [Name (ObjectMeta b0)],
                             EvBuildJobCreate (Name (ObjectMeta b0)),
                             EvLog ''waiting buildjob %s to be ready'' [Name (ObjectMeta ?b)]]
                              @ map EvBuildJobGet asked
                              @ [EvLog ''CBI BuildJob: %q, batchv1 Job: %q''
                                   [Name (ObjectMeta b'), Job (Status b')],
                                 EvSleep (10 * Second),
                                 EvCmdStart (cmdFollowJobLog ''default'' (Job (Status b')))]
                              @ replicate (snd (waitJobCompletion happy_env (Job (Status b'))))
                                  (EvJobGet (Job (Status b')))
                              @ [EvProcessKill, EvBuildJobDelete (Name (ObjectMeta ?b))]))"
    by blast
  have b'2: "b' = named_BuildJob ''bj'' ''job-1''"
    using b' by (simp add: f)
  have jb: "Job (Status b') = ''job-1''" "Name (ObjectMeta b') = ''bj''"
    by (simp_all add: b'2 nbj)
  have upt2: "[0..<2] = [0, Suc 0]"
    by (simp add: upt_rec)
  have asked2: "asked = [''bj'', ''bj'', ''bj'']"
    unfolding asked upt2 by (simp add: names nb)
  have a0: "waitBuildJobReady happy_env ?b
              = (None, named_BuildJob ''bj'' ''job-1'', [''bj'', ''bj'', ''bj''])"
    using w1 by (simp only: b'2 asked2)
  have four: "replicate 4 x = [x, x, x, x]" for x :: event
    by (simp add: numeral_eq_Suc)
  have a: "runCBIBuildV1Alpha1 happy_env ''default'' ?b
     = (None,
        [EvLog ''creating buildjob %s'' [''bj''],
         EvBuildJobCreate ''bj'',
         EvLog ''waiting buildjob %s to be ready'' [''bj''],
         EvBuildJobGet ''bj'', EvBuildJobGet ''bj'', EvBuildJobGet ''bj'',
         EvLog ''CBI BuildJob: %q, batchv1 Job: %q'' [''bj'', ''job-1''],
         EvSleep 10000000000,
         EvCmdStart [''kubectl'', ''--namespace'', ''default'', ''logs'', ''--follow'', ''job/job-1''],
         EvJobGet ''job-1'', EvJobGet ''job-1'', EvJobGet ''job-1'', EvJobGet ''job-1'',
         EvProcessKill,
         EvBuildJobDelete ''bj''])"
    using run1 [THEN spec, THEN mp, OF cr1]
    by (simp add: st1 jb nb asked2 happy_completion four cmdFollowJobLog_def
        Second_def Millisecond_def)

  have g: "fetched ?down ?b 0 = (empty_BuildJob, Some (ErrExternal ''connection refused''))"
    by (simp add: fetched_def)
  have gn: "Name (ObjectMeta (fst (fetched ?down ?b 0))) = ''''"
    unfolding g by (simp add: empty_BuildJob_def)
  have p2: "(\<forall>j<0. ready_pending ?down ?b j) \<and> 0 \<le> Suc (min (ready_ticks ?down) 360)"
    by simp
  have q2: "snd (fetched ?down ?b 0) = Some (ErrExternal ''connection refused'')"
    using g by simp
  have cr2: "buildjobs_Create ?down ?b = (?b, None)"
    by (simp add: happy_env_def)
  from runCBIBuildV1Alpha1_readiness [of ?down ?b "''default''", THEN conjunct1, THEN spec,
      THEN mp, OF p2, THEN conjunct2, THEN spec, THEN mp, OF q2]
  obtain asked where asked: "asked = Name (ObjectMeta ?b)
                  # map (\<lambda>j. Name (ObjectMeta (fst (fetched ?down ?b j)))) [0..<0]"
    and run2: "\<forall>b0. buildjobs_Create ?down b0 = (?b, None) \<longrightarrow>
                  runCBIBuildV1Alpha1 ?down ''default'' b0
                    = (Some (ErrNotFound (Name (ObjectMeta (fst (fetched ?down ?b 0))))),
                       [EvLog ''creating buildjob %s'' [Name (ObjectMeta b0)],
                        EvBuildJobCreate (Name (ObjectMeta b0)),
                        EvLog ''waiting buildjob %s to be ready'' [Name (ObjectMeta ?b)]]
                         @ map EvBuildJobGet asked
                         @ [EvBuildJobDelete (Name (ObjectMeta ?b))])"
    by blast
  have asked1: "asked = [''bj'']"
    unfolding asked by (simp add: nb)
  have b: "runCBIBuildV1Alpha1 ?down ''default'' ?b
     = (Some (ErrNotFound ''''),
        [EvLog ''creating buildjob %s'' [''bj''],
         EvBuildJobCreate ''bj'',
         EvLog ''waiting buildjob %s to be ready'' [''bj''],
         EvBuildJobGet ''bj'',
         EvBuildJobDelete ''bj''])"
    using run2 [THEN spec, THEN mp, OF cr2]
    by (simp add: gn nb asked1)

  have names3: "Name (ObjectMeta (fst (fetched ?stuck ?b j))) = ''bj''" for j
    using fetched_names [of ?stuck ?b j] nb by (simp add: named_BuildJob_def)
  have f3: "fetched ?stuck ?b j = (named_BuildJob ''bj'' '''', None)" for j
  proof -
    have "fetched ?stuck ?b j
            = (named_BuildJob (Name (ObjectMeta (fst (fetched ?stuck ?b j)))) '''', None)"
      by (simp add: fetched_def named_BuildJob_def)
    then show ?thesis by (simp only: names3)
  qed
  have p3: "\<forall>j \<le> Suc (min (ready_ticks ?stuck) 360). ready_pending ?stuck ?b j"
    unfolding ready_pending_def f3 by (simp add: nbj)
  have cr3: "buildjobs_Create ?stuck ?b = (?b, None)"
    by (simp add: happy_env_def)
  from runCBIBuildV1Alpha1_readiness [of ?stuck ?b "''default''", THEN conjunct2, THEN conjunct1,
      THEN mp, OF p3]
  obtain asked where asked: "asked = Name (ObjectMeta ?b)
                  # map (\<lambda>j. Name (ObjectMeta (fst (fetched ?stuck ?b j))))
                      [0..<Suc (min (ready_ticks ?stuck) 360)]"
    and run3: "\<forall>b0. buildjobs_Create ?stuck b0 = (?b, None) \<longrightarrow>
                 runCBIBuildV1Alpha1 ?stuck ''default'' b0
                   = (Some ErrWaitTimeout,
                      [EvLog ''creating buildjob %s'' [Name (ObjectMeta b0)],
                       EvBuildJobCreate (Name (ObjectMeta b0)),
                       EvLog ''waiting buildjob %s to be ready'' [Name (ObjectMeta ?b)]]
                        @ map EvBuildJobGet asked
                        @ [EvBuildJobDelete (Name (ObjectMeta ?b))])"
    by blast
  have m3: "[0..<Suc (min (ready_ticks ?stuck) 360)] = [0, Suc 0, 2]"
    by (simp add: upt_rec)
  have asked3: "asked = [''bj'', ''bj'', ''bj'', ''bj'']"
    unfolding asked m3 by (simp add: names3 nb)
  have c: "runCBIBuildV1Alpha1 ?stuck ''default'' ?b
     = (Some ErrWaitTimeout,
        [EvLog ''creating buildjob %s'' [''bj''],
         EvBuildJobCreate ''bj'',
         EvLog ''waiting buildjob %s to be ready'' [''bj''],
         EvBuildJobGet ''bj'', EvBuildJobGet ''bj'', EvBuildJobGet ''bj'', EvBuildJobGet ''bj'',
         EvBuildJobDelete ''bj''])"
    using run3 [THEN spec, THEN mp, OF cr3]
    by (simp add: nb asked3)
  from a0 a b c show ?thesis by (intro conjI)
qed

subsection \<open>The deferred deletion of the server\<close>

lemma count_no_outer:
  "\<forall>e\<in>set evs. \<not> outer_event e \<Longrightarrow> count_list evs EvTempNginxDelete = 0"
  by (induction evs) auto

lemma Create_events: "\<forall>e\<in>set (snd (snd (TempNginx_Create env x))). \<not> outer_event e"
  by (auto simp: TempNginx_Create_def split: prod.splits option.splits)

lemma run_cmds_events: "\<forall>e\<in>set (snd (run_cmds env cmds)). \<not> outer_event e"
  by (induction cmds) (auto split: prod.splits option.splits)

lemma Copy_events: "\<forall>e\<in>set (snd (TempNginx_Copy env x d s)). \<not> outer_event e"
  unfolding TempNginx_Copy_def by (rule run_cmds_events)

lemma package_events: "\<forall>e\<in>set (snd (package_context env a)). \<not> outer_event e"
  by (auto simp: package_context_def split: option.splits)

lemma created_events: "\<forall>e\<in>set (snd (runCBIBuildV1Alpha1_created env kns b)). \<not> outer_event e"
  by (auto simp: runCBIBuildV1Alpha1_created_def waitJobPodReady_def
      split: prod.splits option.splits)

lemma runCBIBuildV1Alpha1_events:
  "\<forall>e\<in>set (snd (runCBIBuildV1Alpha1 env kns b)). \<not> outer_event e"
proof -
  have c: "runCBIBuildV1Alpha1_created env kns b' = (r, evs) \<Longrightarrow> \<forall>e\<in>set evs. \<not> outer_event e"
    for b' r evs
    using created_events [of env kns b'] by simp
  show ?thesis
    by (auto simp: runCBIBuildV1Alpha1_def split: prod.splits option.splits dest: c)
qed

lemma upload_events:
  "\<forall>e\<in>set (snd (RunCBIBuild_upload env kns a t x f)). \<not> outer_event e"
proof -
  have c: "TempNginx_Copy env x d s = (r, evs) \<Longrightarrow> \<forall>e\<in>set evs. \<not> outer_event e" for d s r evs
    using Copy_events [of env x d s] by simp
  have j: "runCBIBuildV1Alpha1 env kns b = (r, evs) \<Longrightarrow> \<forall>e\<in>set evs. \<not> outer_event e" for b r evs
    using runCBIBuildV1Alpha1_events [of env kns b] by simp
  show ?thesis
    unfolding RunCBIBuild_upload_def Let_def
    by (auto split: prod.splits option.splits dest: c j)
qed

lemma staged_events:
  "\<forall>e\<in>set (snd (snd (RunCBIBuild_staged env kns a t x))). \<not> outer_event e"
proof -
  have c: "TempNginx_Create env x = (r, x', evs) \<Longrightarrow> \<forall>e\<in>set evs. \<not> outer_event e" for r x' evs
    using Create_events [of env x] by simp
  have p: "package_context env a = (r, evs) \<Longrightarrow> \<forall>e\<in>set evs. \<not> outer_event e" for r evs
    using package_events [of env a] by simp
  have u: "RunCBIBuild_upload env kns a t x' f = (r, evs) \<Longrightarrow> \<forall>e\<in>set evs. \<not> outer_event e"
    for x' f r evs
    using upload_events [of env kns a t x' f] by simp
  show ?thesis
    unfolding RunCBIBuild_staged_def
    by (auto split: prod.splits option.splits dest: c p u)
qed

lemma Delete_events:
  "\<exists>evs. snd (TempNginx_Delete env x) = EvTempNginxDelete # evs \<and> (\<forall>e\<in>set evs. \<not> outer_event e)"
  by (auto simp: TempNginx_Delete_def split: option.splits)

lemma RunCBIBuild_constructed:
  assumes "kube_NewForConfig env = None"
    and "NewTempNginx (nginx_now env) (nginx_RandomID env) ''default'' = Some x"
  shows "\<exists>body x' rest.
           RunCBIBuild env a t
             = (fst (RunCBIBuild_staged env ''default'' a t x),
                [EvLog ''Running CBI Build, APIVersion=%s'' [template_APIVersion t],
                 EvNewTempNginx (pod_Name (pod x))] @ body @ EvTempNginxDelete # rest)
           \<and> (\<forall>e\<in>set body. \<not> outer_event e) \<and> (\<forall>e\<in>set rest. \<not> outer_event e)
           \<and> snd (TempNginx_Delete env x') = EvTempNginxDelete # rest"
proof -
  obtain r x' body where st: "RunCBIBuild_staged env ''default'' a t x = (r, x', body)"
    by (cases "RunCBIBuild_staged env ''default'' a t x")
  obtain derr devs where d: "TempNginx_Delete env x' = (derr, devs)"
    by (cases "TempNginx_Delete env x'")
  from Delete_events [of env x'] d obtain rest where rest: "devs = EvTempNginxDelete # rest"
    and nr: "\<forall>e\<in>set rest. \<not> outer_event e" by auto
  from staged_events [of env "''default''" a t x] st have nb: "\<forall>e\<in>set body. \<not> outer_event e"
    by simp
  have "RunCBIBuild env a t
          = (r, [EvLog ''Running CBI Build, APIVersion=%s'' [template_APIVersion t],
                 EvNewTempNginx (pod_Name (pod x))] @ body @ EvTempNginxDelete # rest)"
    using assms st d rest by (simp add: RunCBIBuild_def template_APIVersion_def)
  with st nb nr d rest show ?thesis
    by (intro exI [of _ body] exI [of _ x'] exI [of _ rest]) simp
qed

lemma RunCBIBuild_not_constructed:
  assumes "kube_NewForConfig env \<noteq> None
           \<or> NewTempNginx (nginx_now env) (nginx_RandomID env) ''default'' = None"
  shows "\<forall>e\<in>set (snd (RunCBIBuild env a t)). \<not> outer_event e"
  using assms by (auto simp: RunCBIBuild_def template_APIVersion_def split: option.splits)

text \<open>
  Claim C1.  Once the server handle is constructed, that is when the client is created
  and NewTempNginx returns, the events of RunCBIBuild hold exactly one call of Delete,
  and it comes after the construction, whatever the later steps answer.  When the
  handle is not constructed, Delete is not called.
\<close>

theorem RunCBIBuild_deletes_once:
  "(kube_NewForConfig env = None
      \<and> NewTempNginx (nginx_now env) (nginx_RandomID env) ''default'' = Some x \<longrightarrow>
        count_list (snd (RunCBIBuild env artifact t)) EvTempNginxDelete = 1
      \<and> (\<exists>before after.
            snd (RunCBIBuild env artifact t)
              = before @ EvNewTempNginx (pod_Name (pod x)) # after
            \<and> EvTempNginxDelete \<notin> set before
            \<and> EvTempNginxDelete \<in> set after))
   \<and> (kube_NewForConfig env \<noteq> None
        \<or> NewTempNginx (nginx_now env) (nginx_RandomID env) ''default'' = None \<longrightarrow>
        count_list (snd (RunCBIBuild env artifact t)) EvTempNginxDelete = 0
      \<and> (\<forall>n. EvNewTempNginx n \<notin> set (snd (RunCBIBuild env artifact t))))"
proof (intro conjI impI)
  assume h: "kube_NewForConfig env = None
      \<and> NewTempNginx (nginx_now env) (nginx_RandomID env) ''default'' = Some x"
  then obtain body x' rest where
    run: "snd (RunCBIBuild env artifact t)
            = [EvLog ''Running CBI Build, APIVersion=%s'' [template_APIVersion t],
               EvNewTempNginx (pod_Name (pod x))] @ body @ EvTempNginxDelete # rest"
    and nb: "\<forall>e\<in>set body. \<not> outer_event e" and nr: "\<forall>e\<in>set rest. \<not> outer_event e"
    using RunCBIBuild_constructed [of env x artifact t] by fastforce
  show "count_list (snd (RunCBIBuild env artifact t)) EvTempNginxDelete = 1"
    using run count_no_outer [OF nb] count_no_outer [OF nr] by simp
  have "snd (RunCBIBuild env artifact t)
          = [EvLog ''Running CBI Build, APIVersion=%s'' [template_APIVersion t]]
              @ EvNewTempNginx (pod_Name (pod x)) # (body @ EvTempNginxDelete # rest)"
    using run by simp
  moreover have "EvTempNginxDelete
                   \<notin> set [EvLog ''Running CBI Build, APIVersion=%s'' [template_APIVersion t]]"
    by simp
  moreover have "EvTempNginxDelete \<in> set (body @ EvTempNginxDelete # rest)" by simp
  ultimately show "\<exists>before after.
            snd (RunCBIBuild env artifact t)
              = before @ EvNewTempNginx (pod_Name (pod x)) # after
            \<and> EvTempNginxDelete \<notin> set before
            \<and> EvTempNginxDelete \<in> set after"
    by blast
next
  assume h: "kube_NewForConfig env \<noteq> None
        \<or> NewTempNginx (nginx_now env) (nginx_RandomID env) ''default'' = None"
  note no = RunCBIBuild_not_constructed [OF h, of artifact t]
  show "count_list (snd (RunCBIBuild env artifact t)) EvTempNginxDelete = 0"
    using no by (rule count_no_outer)
  show "\<forall>n. EvNewTempNginx n \<notin> set (snd (RunCBIBuild env artifact t))"
    using no by fastforce
qed

lemma logged_append: "logged (xs @ ys) = logged xs @ logged ys"
  by (induction xs rule: logged.induct) simp_all

lemma run_cmds_ignores_Delete:
  "run_cmds (env\<lparr>services_Delete := sd, pods_Delete := pd\<rparr>) cmds = run_cmds env cmds"
  by (induction cmds) simp_all

lemma ready_condition_ignores_Delete:
  "ready_condition (env\<lparr>services_Delete := sd, pods_Delete := pd\<rparr>) = ready_condition env"
  by (simp add: ready_condition_def)

lemma completion_condition_ignores_Delete:
  "completion_condition (env\<lparr>services_Delete := sd, pods_Delete := pd\<rparr>) n
     = completion_condition env n"
  by (simp add: completion_condition_def)

lemma waits_ignore_Delete:
  "waitBuildJobReady (env\<lparr>services_Delete := sd, pods_Delete := pd\<rparr>) b = waitBuildJobReady env b"
  "waitJobCompletion (env\<lparr>services_Delete := sd, pods_Delete := pd\<rparr>) n = waitJobCompletion env n"
  by (simp_all add: waitBuildJobReady_def waitJobCompletion_def
      ready_condition_ignores_Delete completion_condition_ignores_Delete)

lemma created_ignores_Delete:
  "runCBIBuildV1Alpha1_created (env\<lparr>services_Delete := sd, pods_Delete := pd\<rparr>) kns b
     = runCBIBuildV1Alpha1_created env kns b"
  by (simp add: runCBIBuildV1Alpha1_created_def waits_ignore_Delete
      cong: prod.case_cong option.case_cong)

lemma runCBIBuildV1Alpha1_ignores_Delete:
  "runCBIBuildV1Alpha1 (env\<lparr>services_Delete := sd, pods_Delete := pd\<rparr>) kns b
     = runCBIBuildV1Alpha1 env kns b"
  by (simp add: runCBIBuildV1Alpha1_def created_ignores_Delete
      cong: prod.case_cong option.case_cong)

lemma upload_ignores_Delete:
  "RunCBIBuild_upload (env\<lparr>services_Delete := sd, pods_Delete := pd\<rparr>) kns a t x f
     = RunCBIBuild_upload env kns a t x f"
  by (simp add: RunCBIBuild_upload_def TempNginx_Copy_def run_cmds_ignores_Delete
      runCBIBuildV1Alpha1_ignores_Delete cong: prod.case_cong option.case_cong)

lemma staged_ignores_Delete:
  "RunCBIBuild_staged (env\<lparr>services_Delete := sd, pods_Delete := pd\<rparr>) kns a t x
     = RunCBIBuild_staged env kns a t x"
  by (simp add: RunCBIBuild_staged_def TempNginx_Create_def package_context_def
      upload_ignores_Delete cong: prod.case_cong option.case_cong)

lemma Delete_logs_nothing: "logged (snd (TempNginx_Delete env x)) = []"
  by (simp add: TempNginx_Delete_def split: option.splits)

lemma RunCBIBuild_view:
  "fst (RunCBIBuild env a t)
     = (if kube_NewForConfig env \<noteq> None
        then Some (('''', kube_NewForConfig env), t)
        else case NewTempNginx (nginx_now env) (nginx_RandomID env) ''default'' of
               None \<Rightarrow> None
             | Some x \<Rightarrow> fst (RunCBIBuild_staged env ''default'' a t x))"
  "logged (snd (RunCBIBuild env a t))
     = (''Running CBI Build, APIVersion=%s'', [template_APIVersion t])
         # (if kube_NewForConfig env \<noteq> None then []
            else case NewTempNginx (nginx_now env) (nginx_RandomID env) ''default'' of
                   None \<Rightarrow> []
                 | Some x \<Rightarrow> logged (snd (snd (RunCBIBuild_staged env ''default'' a t x))))"
proof -
  have d: "TempNginx_Delete env x' = (r, evs) \<Longrightarrow> logged evs = []" for x' r evs
    using Delete_logs_nothing [of env x'] by simp
  show "fst (RunCBIBuild env a t)
     = (if kube_NewForConfig env \<noteq> None
        then Some (('''', kube_NewForConfig env), t)
        else case NewTempNginx (nginx_now env) (nginx_RandomID env) ''default'' of
               None \<Rightarrow> None
             | Some x \<Rightarrow> fst (RunCBIBuild_staged env ''default'' a t x))"
    by (auto simp: RunCBIBuild_def template_APIVersion_def split: option.splits prod.splits)
  show "logged (snd (RunCBIBuild env a t))
     = (''Running CBI Build, APIVersion=%s'', [template_APIVersion t])
         # (if kube_NewForConfig env \<noteq> None then []
            else case NewTempNginx (nginx_now env) (nginx_RandomID env) ''default'' of
                   None \<Rightarrow> []
                 | Some x \<Rightarrow> logged (snd (snd (RunCBIBuild_staged env ''default'' a t x))))"
    by (auto simp: RunCBIBuild_def template_APIVersion_def logged_append
        split: option.splits prod.splits dest: d)
qed

lemma RunCBIBuild_ignores_Delete:
  "fst (RunCBIBuild (env\<lparr>services_Delete := sd, pods_Delete := pd\<rparr>) a t) = fst (RunCBIBuild env a t)"
  "logged (snd (RunCBIBuild (env\<lparr>services_Delete := sd, pods_Delete := pd\<rparr>) a t))
     = logged (snd (RunCBIBuild env a t))"
  by (simp_all only: RunCBIBuild_view staged_ignores_Delete) simp_all

text \<open>
  Claim C7, as amended.  The return values of RunCBIBuild, the template it leaves and
  the lines it logs are the same whatever the two deletions of Delete answer: the error
  that Delete returns is dropped by the deferred call, it reaches the caller neither as
  a return value nor as a log line, and it never replaces the result of the build.
\<close>

theorem RunCBIBuild_result_ignores_Delete:
  "fst (RunCBIBuild (env\<lparr>services_Delete := sd, pods_Delete := pd\<rparr>) artifact t)
     = fst (RunCBIBuild env artifact t)
   \<and> logged (snd (RunCBIBuild (env\<lparr>services_Delete := sd, pods_Delete := pd\<rparr>) artifact t))
     = logged (snd (RunCBIBuild env artifact t))
   \<and> caller_view (RunCBIBuild (env\<lparr>services_Delete := sd, pods_Delete := pd\<rparr>) artifact t)
     = caller_view (RunCBIBuild env artifact t)"
  by (simp add: caller_view_def RunCBIBuild_ignores_Delete)

lemma quick_run_result:
  "map_option fst (fst (RunCBIBuild quick_env example_artifact \<lparr>bj = empty_BuildJob\<rparr>))
     = Some (''myapp:0a1b'', None)"
  by (simp add: RunCBIBuild_view RunCBIBuild_staged_def RunCBIBuild_upload_def
      runCBIBuildV1Alpha1_def runCBIBuildV1Alpha1_created_def waitBuildJobReady_def
      waitJobCompletion_def PollImmediate_def ready_condition_def completion_condition_def
      waitJobPodReady_def TempNginx_Create_def TempNginx_Copy_def package_context_def
      eg_Wait_def Fulfill_def fulfill_if_empty_def generated_name_def slice_to_def
      NewTempNginx_def quick_env_def happy_env_def example_artifact_def named_BuildJob_def
      finished_job_def empty_BuildJob_def template_BuildJob_def Let_def)

text \<open>
  A build whose Delete fails returns its image reference and a nil error.
\<close>

theorem RunCBIBuild_result_ignores_Delete_witness:
  "map_option fst (fst (RunCBIBuild delete_fails_env example_artifact \<lparr>bj = empty_BuildJob\<rparr>))
     = Some (''myapp:0a1b'', None)"
proof -
  have e: "delete_fails_env
          = quick_env\<lparr>services_Delete := (\<lambda>n. Some (ErrExternal ''services not found'')),
                      pods_Delete := pods_Delete quick_env\<rparr>"
    by (simp add: delete_fails_env_def)
  have "fst (RunCBIBuild delete_fails_env example_artifact \<lparr>bj = empty_BuildJob\<rparr>)
          = fst (RunCBIBuild quick_env example_artifact \<lparr>bj = empty_BuildJob\<rparr>)"
    unfolding e
    using RunCBIBuild_result_ignores_Delete
        [where env = quick_env and sd = "\<lambda>n. Some (ErrExternal ''services not found'')"
           and pd = "pods_Delete quick_env" and artifact = example_artifact
           and t = "\<lparr>bj = empty_BuildJob\<rparr>"]
    by (rule conjunct1)
  then show ?thesis using quick_run_result by simp
qed

text \<open>
  Claim C7 as stated fails.  In the environment \<open>delete_fails_env\<close> Delete returns an
  error on the handle of the run, and the caller of RunCBIBuild sees exactly what it
  sees when Delete returns nil: the image reference, a nil error and the same log.
\<close>

theorem Delete_error_not_surfaced:
  "fst (TempNginx_Delete delete_fails_env example_nginx) = Some (ErrExternal ''services not found'')
   \<and> NewTempNginx (nginx_now delete_fails_env) (nginx_RandomID delete_fails_env) ''default''
       = Some example_nginx
   \<and> caller_view (RunCBIBuild delete_fails_env example_artifact \<lparr>bj = empty_BuildJob\<rparr>)
       = caller_view (RunCBIBuild quick_env example_artifact \<lparr>bj = empty_BuildJob\<rparr>)
   \<and> fst (caller_view (RunCBIBuild delete_fails_env example_artifact \<lparr>bj = empty_BuildJob\<rparr>))
       = Some (''myapp:0a1b'', None)"
proof -
  have e: "delete_fails_env
          = quick_env\<lparr>services_Delete := (\<lambda>n. Some (ErrExternal ''services not found'')),
                      pods_Delete := pods_Delete quick_env\<rparr>"
    by (simp add: delete_fails_env_def)
  have a: "fst (TempNginx_Delete delete_fails_env example_nginx)
             = Some (ErrExternal ''services not found'')"
    by (simp add: TempNginx_Delete_def delete_fails_env_def)
  have b: "NewTempNginx (nginx_now delete_fails_env) (nginx_RandomID delete_fails_env) ''default''
             = Some example_nginx"
    using NewTempNginx_example by (simp add: delete_fails_env_def quick_env_def happy_env_def)
  have c: "caller_view (RunCBIBuild delete_fails_env example_artifact \<lparr>bj = empty_BuildJob\<rparr>)
             = caller_view (RunCBIBuild quick_env example_artifact \<lparr>bj = empty_BuildJob\<rparr>)"
    by (subst e) (simp only: caller_view_def RunCBIBuild_ignores_Delete)
  have d: "fst (caller_view (RunCBIBuild quick_env example_artifact \<lparr>bj = empty_BuildJob\<rparr>))
             = Some (''myapp:0a1b'', None)"
    using quick_run_result by (simp add: caller_view_def)
  from a b c d show ?thesis by simp
qed

text \<open>
  Claim C8 fails on the code.  When the deletion of the service returns an error,
  Delete returns it at once: the deletion of the pod is not attempted.  So in a build in
  which Create has created the pod and failed on the service, the deferred Delete leaves
  the pod behind.
\<close>

theorem TempNginx_Delete_skips_pod:
  "TempNginx_Delete delete_fails_env example_nginx
     = (Some (ErrExternal ''services not found''),
        [EvTempNginxDelete, EvServiceDelete ''tempnginx-7-9f''])
   \<and> EvPodDelete ''tempnginx-7-9f'' \<notin> set (snd (TempNginx_Delete delete_fails_env example_nginx))
   \<and> snd (RunCBIBuild half_created_env example_artifact \<lparr>bj = empty_BuildJob\<rparr>)
     = [EvLog ''Running CBI Build, APIVersion=%s'' [''cbi.containerbuilding.github.io/v1alpha1''],
        EvNewTempNginx ''tempnginx-7-9f'',
        EvTempFile ''skaffold-cbi-temp'',
        EvLog ''Creating a temporary nginx server'' [],
        EvPodCreate ''tempnginx-7-9f'',
        EvServiceCreate ''tempnginx-7-9f'',
        EvCreateTarGz ''.'',
        EvRemove ''/tmp/skaffold-cbi-temp1'',
        EvTempNginxDelete,
        EvServiceDelete '''']"
proof -
  have "NewTempNginx 7 ''9f86d081'' ''default'' = Some example_nginx"
    by (rule NewTempNginx_example)
  then have "snd (RunCBIBuild half_created_env example_artifact \<lparr>bj = empty_BuildJob\<rparr>)
     = [EvLog ''Running CBI Build, APIVersion=%s'' [''cbi.containerbuilding.github.io/v1alpha1''],
        EvNewTempNginx ''tempnginx-7-9f'',
        EvTempFile ''skaffold-cbi-temp'',
        EvLog ''Creating a temporary nginx server'' [],
        EvPodCreate ''tempnginx-7-9f'',
        EvServiceCreate ''tempnginx-7-9f'',
        EvCreateTarGz ''.'',
        EvRemove ''/tmp/skaffold-cbi-temp1'',
        EvTempNginxDelete,
        EvServiceDelete '''']"
    by (simp add: RunCBIBuild_def RunCBIBuild_staged_def TempNginx_Create_def
        TempNginx_Delete_def package_context_def eg_Wait_def template_APIVersion_def
        SchemeGroupVersion_def half_created_env_def quick_env_def happy_env_def
        example_artifact_def example_nginx_def)
  then show ?thesis
    by (simp add: TempNginx_Delete_def delete_fails_env_def example_nginx_def)
qed

text \<open>
  One call of Delete on the path on which every step succeeds, and one on the path on
  which the packaging of the context fails.
\<close>

theorem RunCBIBuild_deletes_once_witness:
  "count_list (snd (RunCBIBuild happy_env example_artifact \<lparr>bj = empty_BuildJob\<rparr>))
      EvTempNginxDelete = 1
   \<and> count_list
        (snd (RunCBIBuild
                (happy_env\<lparr>CreateDockerTarGzContext := (\<lambda>d w. Some (ErrExternal ''disk full''))\<rparr>)
                example_artifact \<lparr>bj = empty_BuildJob\<rparr>))
        EvTempNginxDelete = 1
   \<and> map_option fst
        (fst (RunCBIBuild
                (happy_env\<lparr>CreateDockerTarGzContext := (\<lambda>d w. Some (ErrExternal ''disk full''))\<rparr>)
                example_artifact \<lparr>bj = empty_BuildJob\<rparr>))
       = Some ('''', Some (ErrWrap ''creating tar gz'' (ErrExternal ''disk full'')))"
proof -
  let ?full = "happy_env\<lparr>CreateDockerTarGzContext := (\<lambda>d w. Some (ErrExternal ''disk full''))\<rparr>"
  let ?t = "\<lparr>bj = empty_BuildJob\<rparr>"
  have h1: "kube_NewForConfig happy_env = None
      \<and> NewTempNginx (nginx_now happy_env) (nginx_RandomID happy_env) ''default'' = Some example_nginx"
    using NewTempNginx_example by (simp add: happy_env_def)
  have h2: "kube_NewForConfig ?full = None
      \<and> NewTempNginx (nginx_now ?full) (nginx_RandomID ?full) ''default'' = Some example_nginx"
    using NewTempNginx_example by (simp add: happy_env_def)
  have a: "count_list (snd (RunCBIBuild happy_env example_artifact ?t)) EvTempNginxDelete = 1"
    using RunCBIBuild_deletes_once [of happy_env example_nginx example_artifact ?t,
        THEN conjunct1, THEN mp, OF h1] by simp
  have b: "count_list (snd (RunCBIBuild ?full example_artifact ?t)) EvTempNginxDelete = 1"
    using RunCBIBuild_deletes_once [of ?full example_nginx example_artifact ?t,
        THEN conjunct1, THEN mp, OF h2] by simp
  have c: "map_option fst (fst (RunCBIBuild ?full example_artifact ?t))
       = Some ('''', Some (ErrWrap ''creating tar gz'' (ErrExternal ''disk full'')))"
    using h2
    by (simp add: RunCBIBuild_view RunCBIBuild_staged_def TempNginx_Create_def
        package_context_def eg_Wait_def happy_env_def example_artifact_def)
  from a b c show ?thesis by simp
qed

subsection \<open>The loop over the artifacts\<close>
















end
